theory Spec2Isabelle
  imports Main
begin

section \<open>The program representation\<close>

text \<open>
  The pass works on an SSA program whose tensor values carry a layout descriptor
  (an \<open>Attribute\<close> of the tensor type). The pass only ever asks a descriptor which
  family it belongs to, what the major version of an accelerator (MMA) layout is, and
  whether two descriptors are equal; the remaining parameters of a descriptor are kept
  as one number.
\<close>

datatype encoding =
    BlockedEncoding nat
  | NvidiaMmaEncoding nat nat
  | DotOperandEncoding nat
  | SharedEncoding nat
  | OtherEncoding nat

fun isaBlockedEncoding :: "encoding \<Rightarrow> bool" where
  "isaBlockedEncoding (BlockedEncoding _) = True"
| "isaBlockedEncoding _ = False"

fun isaNvidiaMmaEncoding :: "encoding \<Rightarrow> bool" where
  "isaNvidiaMmaEncoding (NvidiaMmaEncoding _ _) = True"
| "isaNvidiaMmaEncoding _ = False"

fun isaDotOperandEncoding :: "encoding \<Rightarrow> bool" where
  "isaDotOperandEncoding (DotOperandEncoding _) = True"
| "isaDotOperandEncoding _ = False"


text \<open>A type is a ranked tensor (shape, element type, layout) or anything else.\<close>

datatype ty = RankedTensorType "nat list" nat encoding | OtherType nat

fun isaRankedTensorType :: "ty \<Rightarrow> bool" where
  "isaRankedTensorType (RankedTensorType _ _ _) = True"
| "isaRankedTensorType (OtherType _) = False"

fun getEncoding :: "ty \<Rightarrow> encoding option" where
  "getEncoding (RankedTensorType _ _ e) = Some e"
| "getEncoding (OtherType _) = None"

text \<open>
  Operations are identified by a number. A value is known by identity: it is the
  \<open>i\<close>-th result of an operation, or the \<open>i\<close>-th argument of the entry block of
  region \<open>r\<close> of an operation (function parameters are the block arguments of the
  function operation).
\<close>

type_synonym opid = nat

datatype val = OpResult opid nat | BlockArgument opid nat nat

fun getDefiningOp :: "val \<Rightarrow> opid option" where
  "getDefiningOp (OpResult p _) = Some p"
| "getDefiningOp (BlockArgument _ _ _) = None"

datatype op_kind =
    LoadOp | StoreOp | DotOp | AtomicRMWOp | AtomicCASOp
  | ReshapeOp bool
  | ConvertLayoutOp
  | ForOp | WhileOp | IfOp | YieldOp | ConditionOp
  | ReduceOp | ExpandDimsOp | JoinOp | SplitOp
  | ExtractSliceOp | AllocTensorOp | InsertSliceAsyncOp
  | ConstantOp | SplatOp | AddFOp
  | ExtSIOp | ExtUIOp | ExtFOp | BroadcastOp
  | FuncOp
  | OtherOp nat

text \<open>
  An operation has a kind, its operands, a number of results, the operation and the
  region of it that hold the operation, the two traits the pass tests, and its
  remaining attributes (for a matrix multiply: allowTF32 and maxNumImpreciseAcc).
\<close>

record operation =
  kind :: op_kind
  operands :: "val list"
  numResults :: nat
  parentOp :: "opid option"
  parentRegion :: nat
  sameOperandsAndResultEncoding :: bool
  elementwise :: bool
  attrs :: "nat list"

text \<open>
  The program: the operations that are alive, in program order (an operation comes
  before the operations nested in it, and operations of one block are in the order
  of the block); the table of operations; the type of every value; the parameters of
  the function; the next unused operation number.
\<close>

record ir =
  ops :: "opid list"
  opTable :: "opid \<Rightarrow> operation"
  valType :: "val \<Rightarrow> ty"
  funcArguments :: "val list"
  nextOp :: opid

definition getResults :: "ir \<Rightarrow> opid \<Rightarrow> val list" where
  "getResults m p = map (OpResult p) [0..<numResults (opTable m p)]"

definition opKind :: "ir \<Rightarrow> opid \<Rightarrow> op_kind" where
  "opKind m p = kind (opTable m p)"

text \<open>The use list of a value: every operand slot of a live operation that holds it,
  here in program order.\<close>

definition usesInOp :: "ir \<Rightarrow> val \<Rightarrow> opid \<Rightarrow> (opid \<times> nat) list" where
  "usesInOp m v p =
     map (\<lambda>i. (p, i))
       (filter (\<lambda>i. operands (opTable m p) ! i = v) [0..<length (operands (opTable m p))])"

definition getUses :: "ir \<Rightarrow> val \<Rightarrow> (opid \<times> nat) list" where
  "getUses m v = concat (map (usesInOp m v) (ops m))"

text \<open>
  The accessors of the loop operations. A for-loop has operands
  \<open>[lower, upper, step, init\<^sub>0, ...]\<close>, the block arguments
  \<open>[induction variable, iter\<^sub>0, ...]\<close> and one result per init. The tied argument
  and the tied result of an operand that is not an init are null.
\<close>

definition getTiedLoopRegionIterArg :: "opid \<Rightarrow> nat \<Rightarrow> val option" where
  "getTiedLoopRegionIterArg forOp n =
     (if 3 \<le> n then Some (BlockArgument forOp 0 (n - 3 + 1)) else None)"

definition getTiedLoopResult :: "opid \<Rightarrow> nat \<Rightarrow> val option" where
  "getTiedLoopResult forOp n = (if 3 \<le> n then Some (OpResult forOp (n - 3)) else None)"

definition getRegionIterArg :: "opid \<Rightarrow> nat \<Rightarrow> val" where
  "getRegionIterArg forOp n = BlockArgument forOp 0 (n + 1)"

definition getBeforeArgument :: "opid \<Rightarrow> nat \<Rightarrow> val" where
  "getBeforeArgument whileOp n = BlockArgument whileOp 0 n"

definition getAfterArgument :: "opid \<Rightarrow> nat \<Rightarrow> val" where
  "getAfterArgument whileOp n = BlockArgument whileOp 1 n"

definition getOperand :: "ir \<Rightarrow> opid \<Rightarrow> nat \<Rightarrow> val option" where
  "getOperand m p n =
     (if n < length (operands (opTable m p)) then Some (operands (opTable m p) ! n) else None)"

fun isaReshapeOp :: "op_kind \<Rightarrow> bool" where
  "isaReshapeOp (ReshapeOp _) = True"
| "isaReshapeOp _ = False"

section \<open>The Value-Layout Map\<close>

text \<open>
  \<open>LayoutInfo\<close> holds a \<open>SmallSetVector\<close> of candidate layouts: a list without
  duplicates, in insertion order. The Value-Layout Map is a \<open>MapVector\<close>: an
  association list in insertion order, one entry per key.
\<close>

record LayoutInfo =
  encodings :: "encoding list"

type_synonym layouts = "(val \<times> LayoutInfo) list"

definition setvector_insert :: "'a list \<Rightarrow> 'a \<Rightarrow> 'a list \<times> bool" where
  "setvector_insert xs x = (if x \<in> set xs then (xs, False) else (xs @ [x], True))"


text \<open>\<open>MapVector::operator[]\<close> adds a default entry for a missing key.\<close>

definition mapvector_subscript :: "('k \<times> 'v) list \<Rightarrow> 'k \<Rightarrow> 'v \<Rightarrow> ('k \<times> 'v) list" where
  "mapvector_subscript m k d = (if map_of m k = None then m @ [(k, d)] else m)"

definition mapvector_get :: "('k \<times> 'v) list \<Rightarrow> 'k \<Rightarrow> 'v \<Rightarrow> 'v" where
  "mapvector_get m k d = (case map_of m k of None \<Rightarrow> d | Some v \<Rightarrow> v)"

fun mapvector_assign :: "('k \<times> 'v) list \<Rightarrow> 'k \<Rightarrow> 'v \<Rightarrow> ('k \<times> 'v) list" where
  "mapvector_assign [] k v = []"
| "mapvector_assign ((k', v') # m) k v =
     (if k' = k then (k', v) # m else (k', v') # mapvector_assign m k v)"

definition candidates :: "layouts \<Rightarrow> val \<Rightarrow> encoding list" where
  "candidates L v = (case map_of L v of None \<Rightarrow> [] | Some info \<Rightarrow> encodings info)"

section \<open>Conflict resolution\<close>

text \<open>The loop of \<open>resolveConflicts\<close> over the candidates, leaving at the first
  match.\<close>

fun pickEncoding :: "bool \<Rightarrow> encoding list \<Rightarrow> encoding \<Rightarrow> encoding" where
  "pickEncoding isLoadOrStore [] encoding = encoding"
| "pickEncoding isLoadOrStore (e # es) encoding =
     (if (isLoadOrStore \<and> isaBlockedEncoding e) \<or> (\<not> isLoadOrStore \<and> isaNvidiaMmaEncoding e)
      then e
      else pickEncoding isLoadOrStore es encoding)"

definition isLoadOrStoreOp :: "ir \<Rightarrow> val \<Rightarrow> bool" where
  "isLoadOrStoreOp m v =
     (case getDefiningOp v of
        None \<Rightarrow> False
      | Some p \<Rightarrow> opKind m p = LoadOp \<or> opKind m p = StoreOp
                  \<or> opKind m p = AtomicRMWOp \<or> opKind m p = AtomicCASOp)"

definition resolveEntry :: "ir \<Rightarrow> val \<times> LayoutInfo \<Rightarrow> val \<times> LayoutInfo" where
  "resolveEntry m it =
     (let info = snd it in
      if length (encodings info) \<le> 1 then it
      else
        let encoding = hd (encodings info);
            isLoadOrStore = isLoadOrStoreOp m (fst it);
            encoding' = pickEncoding isLoadOrStore (encodings info) encoding
        in (fst it, info\<lparr>encodings := [encoding']\<rparr>))"

definition resolveConflicts :: "ir \<Rightarrow> layouts \<Rightarrow> layouts" where
  "resolveConflicts m L = map (resolveEntry m) L"

section \<open>What the pass takes from outside\<close>

text \<open>
  The layout inference rules, the cost model and the slice analyses are not part of
  the pass: it calls them. They are parameters here, and every result below holds
  for any choice of them.
\<close>

text \<open>\<open>IRMapping\<close> and the \<open>DenseMap\<close> from values to layouts are maps.\<close>

type_synonym ir_mapping = "val \<rightharpoonup> val"

type_synonym layout_map = "val \<rightharpoonup> encoding"

record oracles =
  inferDstEncoding :: "ir \<Rightarrow> opid \<Rightarrow> encoding \<Rightarrow> encoding option"
  isExpensiveLoadOrStore :: "ir \<Rightarrow> opid \<Rightarrow> bool"
  hasSharedEncoding :: "ir \<Rightarrow> val \<Rightarrow> bool"
  getForwardSlice :: "ir \<Rightarrow> val \<Rightarrow> opid list \<Rightarrow> opid list"
  getConvertBackwardSlice ::
    "ir \<Rightarrow> val \<Rightarrow> encoding \<Rightarrow> (opid \<Rightarrow> bool) option \<Rightarrow> bool \<times> val list \<times> layout_map"
  multiRootTopologicalSort :: "ir \<Rightarrow> opid list \<Rightarrow> opid list"
  replaceForOpWithNewSignature :: "ir \<Rightarrow> opid \<Rightarrow> val list \<Rightarrow> ir \<times> opid"
  clone :: "ir \<Rightarrow> opid \<Rightarrow> opid \<Rightarrow> ir_mapping \<Rightarrow> ir \<times> opid \<times> ir_mapping"

text \<open>What stops the program: a null value or operation is dereferenced, an
  \<open>assert\<close> fails, a \<open>cast\<close> meets another kind, an index is out of range.\<close>

datatype error = NullAccess | AssertionFailed | CastFailed | OutOfRange

section \<open>Anchor detection\<close>












section \<open>Forward propagation\<close>

text \<open>\<open>layouts[value].encodings.insert(d)\<close>: a missing entry is created empty
  first; the flag tells whether \<open>d\<close> was new.\<close>

definition insertCandidate :: "layouts \<Rightarrow> val \<Rightarrow> encoding \<Rightarrow> layouts \<times> bool" where
  "insertCandidate L v d =
     (let L1 = mapvector_subscript L v \<lparr>encodings = []\<rparr>;
          info = mapvector_get L1 v \<lparr>encodings = []\<rparr>;
          r = setvector_insert (encodings info) d
      in (mapvector_assign L1 v (info\<lparr>encodings := fst r\<rparr>), snd r))"

text \<open>The inner loop of \<open>setEncoding\<close>, over the candidates of \<open>info\<close>, for one
  value; the pair carries the map and \<open>hasChanged\<close>.\<close>

definition dstEncodingOf :: "oracles \<Rightarrow> ir \<Rightarrow> opid \<Rightarrow> encoding \<Rightarrow> encoding option" where
  "dstEncodingOf orc m p encoding =
     (if opKind m p = ConvertLayoutOp then Some encoding
      else inferDstEncoding orc m p encoding)"

fun setEncodingLoop ::
  "oracles \<Rightarrow> ir \<Rightarrow> opid \<Rightarrow> val \<Rightarrow> encoding list \<Rightarrow> layouts \<times> bool \<Rightarrow> layouts \<times> bool" where
  "setEncodingLoop orc m p value [] st = st"
| "setEncodingLoop orc m p value (encoding # rest) st =
     (let dstEncoding = dstEncodingOf orc m p encoding
      in case dstEncoding of
           None \<Rightarrow> setEncodingLoop orc m p value rest st
         | Some d \<Rightarrow>
             (let r = insertCandidate (fst st) value d
              in setEncodingLoop orc m p value rest (fst r, snd st \<or> snd r)))"

text \<open>The outer loop of \<open>setEncoding\<close>, over the values; the pair carries the map
  and \<open>changed\<close>.\<close>

fun setEncoding ::
  "oracles \<Rightarrow> ir \<Rightarrow> val list \<Rightarrow> LayoutInfo \<Rightarrow> opid \<Rightarrow> layouts \<times> val list
     \<Rightarrow> layouts \<times> val list" where
  "setEncoding orc m [] info p st = st"
| "setEncoding orc m (value # values) info p st =
     (if \<not> isaRankedTensorType (valType m value) then setEncoding orc m values info p st
      else
        (let r = setEncodingLoop orc m p value (encodings info) (fst st, False)
         in setEncoding orc m values info p
              (fst r, if snd r then snd st @ [value] else snd st)))"

definition propagatesToResults :: "ir \<Rightarrow> opid \<Rightarrow> bool" where
  "propagatesToResults m user =
     (sameOperandsAndResultEncoding (opTable m user) \<or> elementwise (opTable m user)
      \<or> opKind m user = ReduceOp \<or> opKind m user = ExpandDimsOp
      \<or> isaReshapeOp (opKind m user) \<or> opKind m user = JoinOp
      \<or> opKind m user = SplitOp \<or> opKind m user = ConvertLayoutOp)"

text \<open>
  The body of the loop of \<open>propagateToUsers\<close>, for one use (operand number \<open>n\<close>
  of \<open>user\<close>). Every branch ends in one call of \<open>setEncoding\<close> with the same
  \<open>info\<close>, \<open>changed\<close> and \<open>user\<close>; \<open>valuesToPropagate\<close> is the list of
  values the branch passes, empty where no branch applies.
\<close>

definition valuesToPropagate :: "ir \<Rightarrow> opid \<times> nat \<Rightarrow> error + val list" where
  "valuesToPropagate m use =
     (let user = fst use; n = snd use in
      if opKind m user = ForOp then
        (case getTiedLoopRegionIterArg user n of
           None \<Rightarrow> Inl NullAccess
         | Some arg \<Rightarrow>
             (case getTiedLoopResult user n of
                None \<Rightarrow> Inl NullAccess
              | Some result \<Rightarrow> Inr [arg, result]))
      else if opKind m user = WhileOp then Inr [getBeforeArgument user n]
      else if opKind m user = YieldOp then
        (case parentOp (opTable m user) of
           None \<Rightarrow> Inl NullAccess
         | Some parent \<Rightarrow>
             (let forOrIf = (opKind m parent = ForOp \<or> opKind m parent = IfOp);
                  v1 = (if forOrIf then [OpResult parent n] else []);
                  v2 = (if opKind m parent = ForOp then [getRegionIterArg parent n] else [])
              in if opKind m parent = WhileOp then
                   (case getOperand m parent n of
                      None \<Rightarrow> Inl OutOfRange
                    | Some init \<Rightarrow> Inr (v1 @ v2 @ [getBeforeArgument parent n, init]))
                 else if forOrIf then Inr (v1 @ v2)
                 else Inr []))
      else if opKind m user = ConditionOp then
        (case parentOp (opTable m user) of
           None \<Rightarrow> Inl NullAccess
         | Some whileOp \<Rightarrow>
             if opKind m whileOp \<noteq> WhileOp then Inl CastFailed
             else if n = 0 then Inl OutOfRange
             else Inr [getAfterArgument whileOp (n - 1), OpResult whileOp (n - 1)])
      else if propagatesToResults m user then Inr (getResults m user)
      else Inr [])"

definition propagateUse ::
  "oracles \<Rightarrow> ir \<Rightarrow> LayoutInfo \<Rightarrow> opid \<times> nat \<Rightarrow> layouts \<times> val list
     \<Rightarrow> error + layouts \<times> val list" where
  "propagateUse orc m info use st =
     (case valuesToPropagate m use of
        Inl e \<Rightarrow> Inl e
      | Inr values \<Rightarrow> Inr (setEncoding orc m values info (fst use) st))"

fun propagateUses ::
  "oracles \<Rightarrow> ir \<Rightarrow> LayoutInfo \<Rightarrow> (opid \<times> nat) list \<Rightarrow> layouts \<times> val list
     \<Rightarrow> error + layouts \<times> val list" where
  "propagateUses orc m info [] st = Inr st"
| "propagateUses orc m info (use # uses) st =
     (case propagateUse orc m info use st of
        Inl e \<Rightarrow> Inl e
      | Inr st' \<Rightarrow> propagateUses orc m info uses st')"

definition propagateToUsers ::
  "oracles \<Rightarrow> ir \<Rightarrow> layouts \<Rightarrow> val \<Rightarrow> LayoutInfo \<Rightarrow> error + layouts \<times> val list" where
  "propagateToUsers orc m L value info = propagateUses orc m info (getUses m value) (L, [])"





section \<open>Changing the program\<close>

text \<open>
  A builder creates an operation before a given operation, or after a given value:
  after the operation that defines it, or at the start of the block whose argument it
  is. In the list of operations the new one is put next to that place; it lies in
  the same block.
\<close>

datatype insertion_point = InsertBefore opid | InsertAfterValue val

fun insertBefore :: "opid \<Rightarrow> opid \<Rightarrow> opid list \<Rightarrow> opid list" where
  "insertBefore new anchor [] = [new]"
| "insertBefore new anchor (p # ps) =
     (if p = anchor then new # p # ps else p # insertBefore new anchor ps)"

fun insertAfter :: "opid \<Rightarrow> opid \<Rightarrow> opid list \<Rightarrow> opid list" where
  "insertAfter new anchor [] = [new]"
| "insertAfter new anchor (p # ps) =
     (if p = anchor then p # new # ps else p # insertAfter new anchor ps)"

fun placeOp :: "insertion_point \<Rightarrow> opid \<Rightarrow> opid list \<Rightarrow> opid list" where
  "placeOp (InsertBefore anchor) new ps = insertBefore new anchor ps"
| "placeOp (InsertAfterValue (OpResult d _)) new ps = insertAfter new d ps"
| "placeOp (InsertAfterValue (BlockArgument p _ _)) new ps = insertAfter new p ps"

fun blockOf :: "ir \<Rightarrow> insertion_point \<Rightarrow> opid option \<times> nat" where
  "blockOf m (InsertBefore anchor) =
     (parentOp (opTable m anchor), parentRegion (opTable m anchor))"
| "blockOf m (InsertAfterValue (OpResult d _)) =
     (parentOp (opTable m d), parentRegion (opTable m d))"
| "blockOf m (InsertAfterValue (BlockArgument p r _)) = (Some p, r)"

text \<open>\<open>create\<close>: the new operation takes the next unused number; its results get the
  given types.\<close>

definition createOp :: "ir \<Rightarrow> insertion_point \<Rightarrow> operation \<Rightarrow> ty list \<Rightarrow> ir \<times> opid" where
  "createOp m ip opr resultTypes =
     (let new = nextOp m;
          opr' = opr\<lparr>numResults := length resultTypes,
                     parentOp := fst (blockOf m ip), parentRegion := snd (blockOf m ip)\<rparr>
      in (m\<lparr>ops := placeOp ip new (ops m),
            opTable := (opTable m)(new := opr'),
            valType := (\<lambda>v. case v of
                               OpResult p i \<Rightarrow>
                                 if p = new \<and> i < length resultTypes then resultTypes ! i
                                 else valType m v
                             | BlockArgument _ _ _ \<Rightarrow> valType m v),
            nextOp := new + 1\<rparr>, new))"

definition eraseOp :: "ir \<Rightarrow> opid \<Rightarrow> ir" where
  "eraseOp m p = m\<lparr>ops := filter (\<lambda>q. q \<noteq> p) (ops m)\<rparr>"

fun eraseOps :: "ir \<Rightarrow> opid list \<Rightarrow> ir" where
  "eraseOps m [] = m"
| "eraseOps m (p # ps) = eraseOps (eraseOp m p) ps"

definition replaceAllUsesWith :: "ir \<Rightarrow> val \<Rightarrow> val \<Rightarrow> ir" where
  "replaceAllUsesWith m old new =
     m\<lparr>opTable := (\<lambda>p. (opTable m p)\<lparr>operands :=
                        map (\<lambda>v. if v = old then new else v) (operands (opTable m p))\<rparr>)\<rparr>"

definition setType :: "ir \<Rightarrow> val \<Rightarrow> ty \<Rightarrow> ir" where
  "setType m v t = m\<lparr>valType := (valType m)(v := t)\<rparr>"

text \<open>The operations a builder makes here, before their place and result types are
  known.\<close>

definition newOperation :: "op_kind \<Rightarrow> val list \<Rightarrow> bool \<Rightarrow> nat list \<Rightarrow> operation" where
  "newOperation k args elementwiseTrait as =
     \<lparr>kind = k, operands = args, numResults = 0, parentOp = None, parentRegion = 0,
      sameOperandsAndResultEncoding = False, elementwise = elementwiseTrait, attrs = as\<rparr>"

definition convertOps :: "ir \<Rightarrow> opid list" where
  "convertOps m = filter (\<lambda>p. opKind m p = ConvertLayoutOp) (ops m)"

section \<open>The rewriter: \<open>map\<close> and \<open>getValueAs\<close>\<close>

text \<open>
  The state of \<open>LayoutPropagation\<close> while it rewrites: the program, the Value-Layout
  Map, the rewrite mapping (a \<open>DenseMap\<close> from a value and a layout to the rewritten
  value) and the operations to delete.
\<close>

record rewriter =
  program :: ir
  layoutsOf :: layouts
  rewriteMapping :: "val \<times> encoding \<rightharpoonup> val"
  opToDelete :: "opid list"

definition mapValue :: "rewriter \<Rightarrow> val \<Rightarrow> val \<Rightarrow> error + rewriter" where
  "mapValue st old newV =
     (case getEncoding (valType (program st) newV) of
        None \<Rightarrow> Inl CastFailed
      | Some e \<Rightarrow> Inr (st\<lparr>rewriteMapping := (rewriteMapping st)((old, e) \<mapsto> newV)\<rparr>))"



section \<open>Backward rematerialization\<close>

definition canBeRemat :: "oracles \<Rightarrow> ir \<Rightarrow> opid \<Rightarrow> bool" where
  "canBeRemat orc m p =
     (if opKind m p = LoadOp \<or> opKind m p = StoreOp then \<not> isExpensiveLoadOrStore orc m p
      else if opKind m p = ExtractSliceOp \<or> opKind m p = AllocTensorOp
              \<or> opKind m p = InsertSliceAsyncOp \<or> opKind m p = AtomicRMWOp
              \<or> opKind m p = AtomicCASOp \<or> opKind m p = DotOp then False
      else if opKind m p = IfOp \<or> opKind m p = WhileOp \<or> opKind m p = ConditionOp then False
      else True)"

text \<open>The loop of \<open>getRematerializableSlice\<close> over the slice.\<close>

fun allCanBeRemat :: "oracles \<Rightarrow> ir \<Rightarrow> val list \<Rightarrow> bool" where
  "allCanBeRemat orc m [] = True"
| "allCanBeRemat orc m (v # vs) =
     (case getDefiningOp v of
        None \<Rightarrow> allCanBeRemat orc m vs
      | Some p \<Rightarrow> if \<not> canBeRemat orc m p then False else allCanBeRemat orc m vs)"

text \<open>The result is the \<open>LogicalResult\<close> with the two containers the function
  fills.\<close>

definition getRematerializableSlice ::
  "oracles \<Rightarrow> ir \<Rightarrow> val \<Rightarrow> encoding \<Rightarrow> (opid \<Rightarrow> bool) option \<Rightarrow> bool \<times> val list \<times> layout_map" where
  "getRematerializableSlice orc m root rootEncoding stopPropagation =
     (let r = getConvertBackwardSlice orc m root rootEncoding stopPropagation;
          slice = fst (snd r); layout = snd (snd r)
      in if \<not> fst r \<or> slice = [] then (False, slice, layout)
         else if \<not> allCanBeRemat orc m slice then (False, slice, layout)
         else (True, slice, layout))"

text \<open>\<open>SetVector::insert\<close> on the list of operations to rewrite.\<close>

definition setvector_add :: "'a list \<Rightarrow> 'a \<Rightarrow> 'a list" where
  "setvector_add xs x = fst (setvector_insert xs x)"

text \<open>The terminator of the entry block of region \<open>r\<close> of \<open>p\<close>: the last
  operation of that block.\<close>

definition getTerminator :: "ir \<Rightarrow> opid \<Rightarrow> nat \<Rightarrow> opid option" where
  "getTerminator m p r =
     (case filter (\<lambda>q. parentOp (opTable m q) = Some p \<and> parentRegion (opTable m q) = r) (ops m) of
        [] \<Rightarrow> None
      | q # qs \<Rightarrow> Some (last (q # qs)))"

fun collectOpsToRewrite :: "ir \<Rightarrow> val list \<Rightarrow> opid list \<Rightarrow> error + opid list" where
  "collectOpsToRewrite m [] acc = Inr acc"
| "collectOpsToRewrite m (OpResult p i # vs) acc =
     collectOpsToRewrite m vs (setvector_add acc p)"
| "collectOpsToRewrite m (BlockArgument p r i # vs) acc =
     (case getTerminator m p r of
        None \<Rightarrow> Inl NullAccess
      | Some t \<Rightarrow> collectOpsToRewrite m vs (setvector_add (setvector_add acc p) t))"

text \<open>\<open>IRMapping::lookup\<close> asserts that the value is mapped.\<close>

definition lookupMapped :: "ir_mapping \<Rightarrow> val \<Rightarrow> error + val" where
  "lookupMapped mapping v = (case mapping v of None \<Rightarrow> Inl AssertionFailed | Some w \<Rightarrow> Inr w)"

fun lookupAll :: "ir_mapping \<Rightarrow> val list \<Rightarrow> error + val list" where
  "lookupAll mapping [] = Inr []"
| "lookupAll mapping (v # vs) =
     (case lookupMapped mapping v of
        Inl e \<Rightarrow> Inl e
      | Inr w \<Rightarrow> (case lookupAll mapping vs of Inl e \<Rightarrow> Inl e | Inr ws \<Rightarrow> Inr (w # ws)))"

text \<open>The state of the loop of \<open>rewriteSlice\<close>: the program, the mapping and the
  loops that have been replaced.\<close>

record slice_rewrite =
  sliceProgram :: ir
  sliceMapping :: ir_mapping
  deadLoops :: "opid list"

text \<open>The for-loop case: the iteration arguments in the slice, by index, with the
  mapped init value of each.\<close>

definition sliceIterArgs :: "ir \<Rightarrow> val list \<Rightarrow> opid \<Rightarrow> nat list" where
  "sliceIterArgs m slice forOp =
     filter (\<lambda>i. getRegionIterArg forOp i \<in> set slice) [0..<length (operands (opTable m forOp)) - 3]"

fun mapLoopResults :: "opid \<Rightarrow> (nat \<times> nat) list \<Rightarrow> ir_mapping \<Rightarrow> ir_mapping" where
  "mapLoopResults newForOp [] mapping = mapping"
| "mapLoopResults newForOp ((a, b) # rest) mapping =
     mapLoopResults newForOp rest
       (mapping(OpResult newForOp a \<mapsto> OpResult newForOp b,
                BlockArgument newForOp 0 (a + 1) \<mapsto> BlockArgument newForOp 0 (b + 1)))"

text \<open>The init operand tied to iteration argument \<open>i\<close>.\<close>

definition getTiedLoopInit :: "ir \<Rightarrow> opid \<Rightarrow> nat \<Rightarrow> error + val" where
  "getTiedLoopInit m forOp i =
     (case getOperand m forOp (i + 3) of None \<Rightarrow> Inl NullAccess | Some v \<Rightarrow> Inr v)"

fun mappedInits :: "ir \<Rightarrow> ir_mapping \<Rightarrow> opid \<Rightarrow> nat list \<Rightarrow> error + val list" where
  "mappedInits m mapping forOp [] = Inr []"
| "mappedInits m mapping forOp (i # rest) =
     (case getTiedLoopInit m forOp i of
        Inl e \<Rightarrow> Inl e
      | Inr initVal \<Rightarrow>
          (case lookupMapped mapping initVal of
             Inl e \<Rightarrow> Inl e
           | Inr w \<Rightarrow>
               (case mappedInits m mapping forOp rest of
                  Inl e \<Rightarrow> Inl e
                | Inr ws \<Rightarrow> Inr (w # ws))))"

definition rewriteForOp ::
  "oracles \<Rightarrow> val list \<Rightarrow> opid \<Rightarrow> slice_rewrite \<Rightarrow> error + slice_rewrite" where
  "rewriteForOp orc slice forOp st =
     (let m = sliceProgram st;
          idx = sliceIterArgs m slice forOp;
          numInits = length (operands (opTable m forOp)) - 3
      in case mappedInits m (sliceMapping st) forOp idx of
           Inl e \<Rightarrow> Inl e
         | Inr newOperands \<Rightarrow>
             (let argMapping = zip idx (map (\<lambda>k. numInits + k) [0..<length idx]);
                  r = replaceForOpWithNewSignature orc m forOp newOperands
              in Inr (st\<lparr>sliceProgram := fst r,
                        sliceMapping := mapLoopResults (snd r) argMapping (sliceMapping st),
                        deadLoops := deadLoops st @ [forOp]\<rparr>)))"

definition rewriteYield ::
  "val list \<Rightarrow> opid \<Rightarrow> slice_rewrite \<Rightarrow> error + slice_rewrite" where
  "rewriteYield slice p st =
     (let m = sliceProgram st;
          yieldOperands = operands (opTable m p)
      in case lookupAll (sliceMapping st) (filter (\<lambda>v. v \<in> set slice) yieldOperands) of
           Inl e \<Rightarrow> Inl e
         | Inr extra \<Rightarrow>
             (let r = createOp m (InsertBefore p)
                        (newOperation YieldOp (yieldOperands @ extra) False []) []
              in Inr (st\<lparr>sliceProgram := eraseOp (fst r) p\<rparr>)))"

definition rewriteConstant ::
  "oracles \<Rightarrow> layout_map \<Rightarrow> opid \<Rightarrow> slice_rewrite \<Rightarrow> error + slice_rewrite" where
  "rewriteConstant orc layout p st =
     (let m = sliceProgram st;
          c = clone orc m p p Map.empty;
          m1 = fst c; newOp = fst (snd c)
      in case valType m1 (OpResult p 0) of
           OtherType _ \<Rightarrow> Inl CastFailed
         | RankedTensorType shape elt _ \<Rightarrow>
             (case layout (OpResult p 0) of
                None \<Rightarrow> Inl NullAccess \<comment> \<open>\<open>layout[...]\<close> of a missing key is a null layout\<close>
              | Some e \<Rightarrow>
                  (let r = createOp m1 (InsertBefore p)
                             (newOperation ConvertLayoutOp [OpResult newOp 0] False [])
                             [RankedTensorType shape elt e]
                   in Inr (st\<lparr>sliceProgram := fst r,
                             sliceMapping := (sliceMapping st)(OpResult p 0 \<mapsto> OpResult (snd r) 0)\<rparr>))))"

text \<open>The loop that gives the results of a cloned operation their new types.\<close>

fun retypeResults :: "layout_map \<Rightarrow> opid \<Rightarrow> opid \<Rightarrow> nat list \<Rightarrow> ir \<Rightarrow> error + ir" where
  "retypeResults layout p newOp [] m = Inr m"
| "retypeResults layout p newOp (i # rest) m =
     (case layout (OpResult p i) of
        None \<Rightarrow> retypeResults layout p newOp rest m
      | Some e \<Rightarrow>
          (case valType m (OpResult p i) of
             OtherType _ \<Rightarrow> Inl CastFailed
           | RankedTensorType shape elt _ \<Rightarrow>
               retypeResults layout p newOp rest
                 (setType m (OpResult newOp i) (RankedTensorType shape elt e))))"

definition rewriteByClone ::
  "oracles \<Rightarrow> layout_map \<Rightarrow> opid \<Rightarrow> slice_rewrite \<Rightarrow> error + slice_rewrite" where
  "rewriteByClone orc layout p st =
     (let m = sliceProgram st;
          c = clone orc m p p (sliceMapping st);
          m1 = fst c; newOp = fst (snd c)
      in case retypeResults layout p newOp [0..<numResults (opTable m1 p)] m1 of
           Inl e \<Rightarrow> Inl e
         | Inr m2 \<Rightarrow> Inr (st\<lparr>sliceProgram := m2, sliceMapping := snd (snd c)\<rparr>))"

fun rewriteOps ::
  "oracles \<Rightarrow> val list \<Rightarrow> layout_map \<Rightarrow> opid list \<Rightarrow> slice_rewrite \<Rightarrow> error + slice_rewrite" where
  "rewriteOps orc slice layout [] st = Inr st"
| "rewriteOps orc slice layout (p # ps) st =
     (case (if opKind (sliceProgram st) p = ForOp then rewriteForOp orc slice p st
            else if opKind (sliceProgram st) p = YieldOp then rewriteYield slice p st
            else if opKind (sliceProgram st) p = ConstantOp then rewriteConstant orc layout p st
            else rewriteByClone orc layout p st) of
        Inl e \<Rightarrow> Inl e
      | Inr st' \<Rightarrow> rewriteOps orc slice layout ps st')"

definition rewriteSlice ::
  "oracles \<Rightarrow> ir \<Rightarrow> val list \<Rightarrow> layout_map \<Rightarrow> opid \<Rightarrow> ir_mapping \<Rightarrow> error + ir" where
  "rewriteSlice orc m slice layout convertOp mapping =
     (case collectOpsToRewrite m slice [] of
        Inl e \<Rightarrow> Inl e
      | Inr collected \<Rightarrow>
          (let opsToRewrite = multiRootTopologicalSort orc m collected in
           case rewriteOps orc slice layout opsToRewrite
                  \<lparr>sliceProgram = m, sliceMapping = mapping, deadLoops = []\<rparr> of
             Inl e \<Rightarrow> Inl e
           | Inr st \<Rightarrow>
               (case getOperand (sliceProgram st) convertOp 0 of
                  None \<Rightarrow> Inl OutOfRange
                | Some src \<Rightarrow>
                    (case lookupMapped (sliceMapping st) src of
                       Inl e \<Rightarrow> Inl e
                     | Inr newSrc \<Rightarrow>
                         Inr (eraseOps
                                (eraseOp
                                   (replaceAllUsesWith (sliceProgram st) (OpResult convertOp 0) newSrc)
                                   convertOp)
                                (deadLoops st))))))"

text \<open>The overload of \<open>rewriteSlice\<close> that starts from an empty mapping.\<close>

definition rewriteSliceFresh ::
  "oracles \<Rightarrow> ir \<Rightarrow> val list \<Rightarrow> layout_map \<Rightarrow> opid \<Rightarrow> error + ir" where
  "rewriteSliceFresh orc m slice layout convertOp =
     rewriteSlice orc m slice layout convertOp Map.empty"

definition backwardRematerialization :: "oracles \<Rightarrow> ir \<Rightarrow> opid \<Rightarrow> error + ir" where
  "backwardRematerialization orc m convertOp =
     (if hasSharedEncoding orc m (OpResult convertOp 0) then Inr m
      else
        (case getOperand m convertOp 0 of
           None \<Rightarrow> Inl OutOfRange
         | Some src \<Rightarrow>
             if hasSharedEncoding orc m src then Inr m
             else
               (case getEncoding (valType m (OpResult convertOp 0)) of
                  None \<Rightarrow> Inl CastFailed
                | Some targetEncoding \<Rightarrow>
                    if isaDotOperandEncoding targetEncoding then Inr m
                    else
                      (let r = getRematerializableSlice orc m src targetEncoding None in
                       if \<not> fst r then Inr m
                       else rewriteSliceFresh orc m (fst (snd r)) (snd (snd r)) convertOp))))"

text \<open>The driver: the conversions are collected first, then each is tried on the
  program the earlier attempts have left.\<close>

fun backwardRematerializationAll :: "oracles \<Rightarrow> ir \<Rightarrow> opid list \<Rightarrow> error + ir" where
  "backwardRematerializationAll orc m [] = Inr m"
| "backwardRematerializationAll orc m (convertOp # rest) =
     (case backwardRematerialization orc m convertOp of
        Inl e \<Rightarrow> Inl e
      | Inr m' \<Rightarrow> backwardRematerializationAll orc m' rest)"

definition backwardRematerializationModule :: "oracles \<Rightarrow> ir \<Rightarrow> error + ir" where
  "backwardRematerializationModule orc m = backwardRematerializationAll orc m (convertOps m)"

section \<open>The dot-accumulator pattern\<close>

text \<open>The users of an operation, one for every use of one of its results.\<close>

definition getUsers :: "ir \<Rightarrow> opid \<Rightarrow> opid list" where
  "getUsers m p = map fst (concat (map (getUses m) (getResults m p)))"

text \<open>\<open>v.getDefiningOp<K>()\<close>: the defining operation if it is of kind \<open>K\<close>.\<close>

definition getDefiningOpOfKind :: "ir \<Rightarrow> val \<Rightarrow> op_kind \<Rightarrow> opid option" where
  "getDefiningOpOfKind m v k =
     (case getDefiningOp v of
        None \<Rightarrow> None
      | Some p \<Rightarrow> if opKind m p = k then Some p else None)"

text \<open>The operations the pattern builds, once it has matched; all are created before
  \<open>op\<close>, then \<open>op\<close> is replaced by the addition.\<close>

definition buildDotRewrite :: "ir \<Rightarrow> opid \<Rightarrow> opid \<Rightarrow> val \<Rightarrow> val \<Rightarrow> val \<Rightarrow> ty \<Rightarrow> nat \<Rightarrow> ir" where
  "buildDotRewrite m op dotOp a b loaded dstTy elt =
     (let dotTy = valType m (OpResult dotOp 0);
          c0 = createOp m (InsertBefore op) (newOperation ConstantOp [] False [0]) [OtherType elt];
          c1 = createOp (fst c0) (InsertBefore op)
                 (newOperation SplatOp [OpResult (snd c0) 0] False []) [dotTy];
          c2 = createOp (fst c1) (InsertBefore op)
                 (newOperation DotOp [a, b, OpResult (snd c1) 0] False (attrs (opTable m dotOp)))
                 [dotTy];
          c3 = createOp (fst c2) (InsertBefore op)
                 (newOperation ConvertLayoutOp [OpResult (snd c2) 0] False []) [dstTy];
          c4 = createOp (fst c3) (InsertBefore op)
                 (newOperation AddFOp [OpResult (snd c3) 0, loaded] True []) [dstTy]
      in eraseOp (replaceAllUsesWith (fst c4) (OpResult op 0) (OpResult (snd c4) 0)) op)"

text \<open>\<open>ConvertDotConvert::matchAndRewrite\<close>: the flag is the \<open>LogicalResult\<close>.\<close>

definition matchAndRewrite :: "ir \<Rightarrow> opid \<Rightarrow> error + bool \<times> ir" where
  "matchAndRewrite m op =
     (if opKind m op \<noteq> ConvertLayoutOp then Inl CastFailed
      else
        (case getOperand m op 0 of
           None \<Rightarrow> Inl OutOfRange
         | Some src \<Rightarrow>
             (case getDefiningOpOfKind m src DotOp of
                None \<Rightarrow> Inr (False, m)
              | Some dotOp \<Rightarrow>
                  if length (getUsers m op) \<noteq> 1 \<or> length (getUsers m dotOp) \<noteq> 1
                  then Inr (False, m)
                  else
                    (case getOperand m dotOp 2 of
                       None \<Rightarrow> Inl OutOfRange
                     | Some acc \<Rightarrow>
                         (case getDefiningOpOfKind m acc ConvertLayoutOp of
                            None \<Rightarrow> Inr (False, m)
                          | Some cvtOp \<Rightarrow>
                              (case getOperand m cvtOp 0 of
                                 None \<Rightarrow> Inl OutOfRange
                               | Some loaded \<Rightarrow>
                                   (case getDefiningOpOfKind m loaded LoadOp of
                                      None \<Rightarrow> Inr (False, m)
                                    | Some loadOp \<Rightarrow>
                                        (case valType m (OpResult op 0) of
                                           OtherType _ \<Rightarrow> Inl CastFailed
                                         | RankedTensorType shape elt e \<Rightarrow>
                                             if RankedTensorType shape elt e \<noteq> valType m loaded
                                             then Inr (False, m)
                                             else
                                               (case getOperand m dotOp 0 of
                                                  None \<Rightarrow> Inl OutOfRange
                                                | Some a \<Rightarrow>
                                                    (case getOperand m dotOp 1 of
                                                       None \<Rightarrow> Inl OutOfRange
                                                     | Some b \<Rightarrow>
                                                         Inr (True,
                                                              buildDotRewrite m op dotOp a b loaded
                                                                (RankedTensorType shape elt e) elt)))))))))))"

section \<open>Notions used to state the properties of propagation\<close>

text \<open>One map extends another when no value loses a candidate; it adds a candidate
  when some value has strictly more.\<close>

definition extends :: "layouts \<Rightarrow> layouts \<Rightarrow> bool" where
  "extends L L' = (\<forall>w. set (candidates L w) \<subseteq> set (candidates L' w))"


definition entriesNonEmpty :: "layouts \<Rightarrow> bool" where
  "entriesNonEmpty L = (\<forall>x \<in> set L. encodings (snd x) \<noteq> [])"

definition evolves :: "layouts \<Rightarrow> layouts \<Rightarrow> bool" where
  "evolves L L' =
     (extends L L' \<and> dom (map_of L) \<subseteq> dom (map_of L')
      \<and> (entriesNonEmpty L \<longrightarrow> entriesNonEmpty L'))"

definition grew :: "val \<Rightarrow> layouts \<Rightarrow> layouts \<Rightarrow> bool" where
  "grew v L L' = (set (candidates L v) \<subset> set (candidates L' v) \<and> v \<in> dom (map_of L'))"

definition advances :: "layouts \<times> val list \<Rightarrow> layouts \<times> val list \<Rightarrow> bool" where
  "advances st st' =
     (evolves (fst st) (fst st') \<and>
      (\<exists>new. snd st' = snd st @ new \<and> (new = [] \<longrightarrow> fst st' = fst st)
             \<and> (\<forall>v \<in> set new. grew v (fst st) (fst st'))))"





text \<open>The layouts seeded by a map: the candidates it holds, and every destination
  layout \<open>setEncoding\<close> can derive, on an operation of the function, from a layout
  already seeded.\<close>

inductive_set reachableLayouts :: "oracles \<Rightarrow> ir \<Rightarrow> layouts \<Rightarrow> encoding set"
  for orc :: oracles and m :: ir and L0 :: layouts where
  seed: "x \<in> set L0 \<Longrightarrow> e \<in> set (encodings (snd x)) \<Longrightarrow> e \<in> reachableLayouts orc m L0"
| step: "e \<in> reachableLayouts orc m L0 \<Longrightarrow> p \<in> set (ops m)
         \<Longrightarrow> dstEncodingOf orc m p e = Some d \<Longrightarrow> d \<in> reachableLayouts orc m L0"



section \<open>Example programs\<close>

text \<open>
  A function that loads a tensor, carries it through a for-loop whose body applies
  one elementwise operation, and stores the result of the loop:
  operation 0 is the function (parameters: a pointer and an index), 1 the load,
  2 the loop, 3 the elementwise operation and 4 the yield of the body, 5 the store.
\<close>

definition tensorOf :: "encoding \<Rightarrow> ty" where
  "tensorOf e = RankedTensorType [16] 0 e"

definition loopProgramOp :: "opid \<Rightarrow> operation" where
  "loopProgramOp p =
     (if p = 1 then
        \<lparr>kind = LoadOp, operands = [BlockArgument 0 0 0], numResults = 1, parentOp = Some 0,
         parentRegion = 0, sameOperandsAndResultEncoding = False, elementwise = False, attrs = []\<rparr>
      else if p = 2 then
        \<lparr>kind = ForOp,
         operands = [BlockArgument 0 0 1, BlockArgument 0 0 1, BlockArgument 0 0 1, OpResult 1 0],
         numResults = 1, parentOp = Some 0, parentRegion = 0,
         sameOperandsAndResultEncoding = False, elementwise = False, attrs = []\<rparr>
      else if p = 3 then
        \<lparr>kind = OtherOp 0, operands = [BlockArgument 2 0 1], numResults = 1, parentOp = Some 2,
         parentRegion = 0, sameOperandsAndResultEncoding = True, elementwise = True, attrs = []\<rparr>
      else if p = 4 then
        \<lparr>kind = YieldOp, operands = [OpResult 3 0], numResults = 0, parentOp = Some 2,
         parentRegion = 0, sameOperandsAndResultEncoding = False, elementwise = False, attrs = []\<rparr>
      else if p = 5 then
        \<lparr>kind = StoreOp, operands = [BlockArgument 0 0 0, OpResult 2 0], numResults = 0,
         parentOp = Some 0, parentRegion = 0, sameOperandsAndResultEncoding = False,
         elementwise = False, attrs = []\<rparr>
      else
        \<lparr>kind = FuncOp, operands = [], numResults = 0, parentOp = None, parentRegion = 0,
         sameOperandsAndResultEncoding = False, elementwise = False, attrs = []\<rparr>)"

definition loopProgramType :: "val \<Rightarrow> ty" where
  "loopProgramType v =
     (if v = OpResult 1 0 \<or> v = OpResult 2 0 \<or> v = OpResult 3 0 \<or> v = BlockArgument 2 0 1
      then tensorOf (BlockedEncoding 0)
      else if v = BlockArgument 0 0 0 then OtherType 0
      else OtherType 1)"

definition loopProgram :: ir where
  "loopProgram =
     \<lparr>ops = [0, 1, 2, 3, 4, 5], opTable = loopProgramOp, valType = loopProgramType,
      funcArguments = [BlockArgument 0 0 0, BlockArgument 0 0 1], nextOp = 6\<rparr>"

text \<open>An instance of what the pass takes from outside: every operation hands a layout
  on unchanged, every load and store is expensive, the forward slice of a value is
  the list of its transitive users, and nothing has a backward slice.\<close>

definition usersOf :: "ir \<Rightarrow> val \<Rightarrow> opid list" where
  "usersOf m v = remdups (map fst (getUses m v))"

fun transitiveUsers :: "ir \<Rightarrow> nat \<Rightarrow> opid list \<Rightarrow> opid list" where
  "transitiveUsers m 0 acc = acc"
| "transitiveUsers m (Suc n) acc =
     transitiveUsers m n
       (remdups (acc @ concat (map (\<lambda>p. concat (map (usersOf m) (getResults m p))) acc)))"

definition exampleOracles :: oracles where
  "exampleOracles =
     \<lparr>inferDstEncoding = (\<lambda>m p e. Some e),
      isExpensiveLoadOrStore = (\<lambda>m p. True),
      hasSharedEncoding = (\<lambda>m v. False),
      getForwardSlice =
        (\<lambda>m v slice. remdups (slice @ transitiveUsers m (length (ops m)) (usersOf m v))),
      getConvertBackwardSlice = (\<lambda>m root e stop. (False, [], Map.empty)),
      multiRootTopologicalSort = (\<lambda>m ps. ps),
      replaceForOpWithNewSignature = (\<lambda>m p vs. (m, p)),
      clone = (\<lambda>m anchor p mapping. (m, p, mapping))\<rparr>"

text \<open>Three candidates for the result of the load of the example.\<close>

definition conflictingLayouts :: layouts where
  "conflictingLayouts =
     [(OpResult 1 0,
       \<lparr>encodings = [NvidiaMmaEncoding 2 0, BlockedEncoding 0, BlockedEncoding 1]\<rparr>)]"

text \<open>The anchors of the example, and the map and the changed values after the
  users of the load have been visited.\<close>

definition loopAnchors :: layouts where
  "loopAnchors = [(OpResult 1 0, \<lparr>encodings = [BlockedEncoding 0]\<rparr>)]"

definition loopUsersPropagated :: "layouts \<times> val list" where
  "loopUsersPropagated =
     ([(OpResult 1 0, \<lparr>encodings = [BlockedEncoding 0]\<rparr>),
       (BlockArgument 2 0 1, \<lparr>encodings = [BlockedEncoding 0]\<rparr>),
       (OpResult 2 0, \<lparr>encodings = [BlockedEncoding 0]\<rparr>)],
      [BlockArgument 2 0 1, OpResult 2 0])"















text \<open>
  A function whose conversion can be rematerialized: operation 1 is a constant,
  2 an elementwise operation on it, 3 the conversion of the result of 2 from one
  blocked layout into another, 4 a store of the converted value.
\<close>

definition rematProgramOp :: "opid \<Rightarrow> operation" where
  "rematProgramOp p =
     (if p = 1 then
        \<lparr>kind = ConstantOp, operands = [], numResults = 1, parentOp = Some 0, parentRegion = 0,
         sameOperandsAndResultEncoding = False, elementwise = False, attrs = [7]\<rparr>
      else if p = 2 then
        \<lparr>kind = OtherOp 0, operands = [OpResult 1 0], numResults = 1, parentOp = Some 0,
         parentRegion = 0, sameOperandsAndResultEncoding = True, elementwise = True, attrs = []\<rparr>
      else if p = 3 then
        \<lparr>kind = ConvertLayoutOp, operands = [OpResult 2 0], numResults = 1, parentOp = Some 0,
         parentRegion = 0, sameOperandsAndResultEncoding = False, elementwise = False,
         attrs = []\<rparr>
      else if p = 4 then
        \<lparr>kind = StoreOp, operands = [BlockArgument 0 0 0, OpResult 3 0], numResults = 0,
         parentOp = Some 0, parentRegion = 0, sameOperandsAndResultEncoding = False,
         elementwise = False, attrs = []\<rparr>
      else
        \<lparr>kind = FuncOp, operands = [], numResults = 0, parentOp = None, parentRegion = 0,
         sameOperandsAndResultEncoding = False, elementwise = False, attrs = []\<rparr>)"

definition rematProgramType :: "val \<Rightarrow> ty" where
  "rematProgramType v =
     (if v = OpResult 1 0 \<or> v = OpResult 2 0 then tensorOf (BlockedEncoding 0)
      else if v = OpResult 3 0 then tensorOf (BlockedEncoding 1)
      else OtherType 0)"

definition rematProgram :: ir where
  "rematProgram =
     \<lparr>ops = [0, 1, 2, 3, 4], opTable = rematProgramOp, valType = rematProgramType,
      funcArguments = [BlockArgument 0 0 0], nextOp = 5\<rparr>"

text \<open>
  For this example: a copy of an operation without regions, placed before \<open>anchor\<close>,
  with the operands looked up in the mapping and the results entered into it; the
  backward slice of the source of the conversion (the elementwise operation and the
  constant, both wanted in the target layout); the operations sorted by number.
\<close>

definition cloneOp :: "ir \<Rightarrow> opid \<Rightarrow> opid \<Rightarrow> ir_mapping \<Rightarrow> ir \<times> opid \<times> ir_mapping" where
  "cloneOp m anchor p mapping =
     (let r = createOp m (InsertBefore anchor)
                ((opTable m p)\<lparr>operands :=
                   map (\<lambda>v. case mapping v of None \<Rightarrow> v | Some w \<Rightarrow> w) (operands (opTable m p))\<rparr>)
                (map (valType m) (getResults m p))
      in (fst r, snd r,
          (\<lambda>v. case v of
                  OpResult q i \<Rightarrow>
                    if q = p \<and> i < numResults (opTable m p) then Some (OpResult (snd r) i)
                    else mapping v
                | BlockArgument _ _ _ \<Rightarrow> mapping v)))"

definition rematOracles :: oracles where
  "rematOracles =
     exampleOracles
       \<lparr>getConvertBackwardSlice :=
          (\<lambda>m root e stop.
             if root = OpResult 2 0
             then (True, [OpResult 2 0, OpResult 1 0],
                   [OpResult 2 0 \<mapsto> e, OpResult 1 0 \<mapsto> e])
             else (False, [], Map.empty)),
        multiRootTopologicalSort := (\<lambda>m ps. sort ps),
        clone := cloneOp\<rparr>"


text \<open>
  The conditions the specification names for the dot-accumulator pattern: the source
  of the conversion is a matrix multiply, the accumulator of the multiply comes from
  a conversion whose source is a load, and the multiply and the conversion are each
  used once.
\<close>

definition specifiedDotPattern :: "ir \<Rightarrow> opid \<Rightarrow> bool" where
  "specifiedDotPattern m op =
     (\<exists>src dotOp acc cvtOp loaded loadOp.
        getOperand m op 0 = Some src \<and> getDefiningOpOfKind m src DotOp = Some dotOp
        \<and> getOperand m dotOp 2 = Some acc
        \<and> getDefiningOpOfKind m acc ConvertLayoutOp = Some cvtOp
        \<and> getOperand m cvtOp 0 = Some loaded
        \<and> getDefiningOpOfKind m loaded LoadOp = Some loadOp
        \<and> length (getUsers m op) = 1 \<and> length (getUsers m dotOp) = 1)"

text \<open>The value loaded into the accumulator, when the pattern of the specification is
  there.\<close>

definition loadedAccumulator :: "ir \<Rightarrow> opid \<Rightarrow> val option" where
  "loadedAccumulator m op =
     (case getOperand m op 0 of
        None \<Rightarrow> None
      | Some src \<Rightarrow>
          (case getDefiningOp src of
             None \<Rightarrow> None
           | Some dotOp \<Rightarrow>
               (case getOperand m dotOp 2 of
                  None \<Rightarrow> None
                | Some acc \<Rightarrow>
                    (case getDefiningOp acc of
                       None \<Rightarrow> None
                     | Some cvtOp \<Rightarrow> getOperand m cvtOp 0))))"

text \<open>
  A load whose value is converted and used as the accumulator of a matrix multiply,
  the product being converted and stored: operation 1 is the load, 2 the conversion
  into the MMA layout, 3 the multiply, 4 the conversion of the product, 5 the store.
  The layout of the result of 4 is a parameter: the blocked layout 0 of the load, or
  another.
\<close>

definition dotAccProgramOp :: "opid \<Rightarrow> operation" where
  "dotAccProgramOp p =
     (if p = 1 then
        \<lparr>kind = LoadOp, operands = [BlockArgument 0 0 2], numResults = 1, parentOp = Some 0,
         parentRegion = 0, sameOperandsAndResultEncoding = False, elementwise = False, attrs = []\<rparr>
      else if p = 2 then
        \<lparr>kind = ConvertLayoutOp, operands = [OpResult 1 0], numResults = 1, parentOp = Some 0,
         parentRegion = 0, sameOperandsAndResultEncoding = False, elementwise = False,
         attrs = []\<rparr>
      else if p = 3 then
        \<lparr>kind = DotOp, operands = [BlockArgument 0 0 0, BlockArgument 0 0 1, OpResult 2 0],
         numResults = 1, parentOp = Some 0, parentRegion = 0,
         sameOperandsAndResultEncoding = False, elementwise = False, attrs = [1, 0]\<rparr>
      else if p = 4 then
        \<lparr>kind = ConvertLayoutOp, operands = [OpResult 3 0], numResults = 1, parentOp = Some 0,
         parentRegion = 0, sameOperandsAndResultEncoding = False, elementwise = False,
         attrs = []\<rparr>
      else if p = 5 then
        \<lparr>kind = StoreOp, operands = [BlockArgument 0 0 2, OpResult 4 0], numResults = 0,
         parentOp = Some 0, parentRegion = 0, sameOperandsAndResultEncoding = False,
         elementwise = False, attrs = []\<rparr>
      else
        \<lparr>kind = FuncOp, operands = [], numResults = 0, parentOp = None, parentRegion = 0,
         sameOperandsAndResultEncoding = False, elementwise = False, attrs = []\<rparr>)"

definition dotAccProgramType :: "encoding \<Rightarrow> val \<Rightarrow> ty" where
  "dotAccProgramType e v =
     (if v = OpResult 1 0 then tensorOf (BlockedEncoding 0)
      else if v = OpResult 2 0 \<or> v = OpResult 3 0 then tensorOf (NvidiaMmaEncoding 2 0)
      else if v = OpResult 4 0 then tensorOf e
      else if v = BlockArgument 0 0 0 then tensorOf (DotOperandEncoding 0)
      else if v = BlockArgument 0 0 1 then tensorOf (DotOperandEncoding 1)
      else OtherType 0)"

definition dotAccProgram :: "encoding \<Rightarrow> ir" where
  "dotAccProgram e =
     \<lparr>ops = [0, 1, 2, 3, 4, 5], opTable = dotAccProgramOp, valType = dotAccProgramType e,
      funcArguments = [BlockArgument 0 0 0, BlockArgument 0 0 1, BlockArgument 0 0 2],
      nextOp = 6\<rparr>"

text \<open>The example with the result of the last conversion in the layout of the load,
  after the pattern has rewritten it.\<close>

definition dotAccRewritten :: ir where
  "dotAccRewritten =
     buildDotRewrite (dotAccProgram (BlockedEncoding 0)) 4 3 (BlockArgument 0 0 0)
       (BlockArgument 0 0 1) (OpResult 1 0) (RankedTensorType [16] 0 (BlockedEncoding 0)) 0"

section \<open>Properties of conflict resolution\<close>

lemma pickEncoding_find:
  "pickEncoding b es d =
     (case find (\<lambda>e. (b \<and> isaBlockedEncoding e) \<or> (\<not> b \<and> isaNvidiaMmaEncoding e)) es of
        None \<Rightarrow> d | Some e \<Rightarrow> e)"
  by (induction es) auto

lemma pickEncoding_default_or_member:
  "pickEncoding b es d = d \<or> pickEncoding b es d \<in> set es"
  by (induction es) auto

lemma pickEncoding_member:
  "d \<in> set es \<Longrightarrow> pickEncoding b es d \<in> set es"
  using pickEncoding_default_or_member [of b es d] by auto

lemma map_of_resolveConflicts:
  "map_of (resolveConflicts m L) v = map_option (\<lambda>info. snd (resolveEntry m (v, info))) (map_of L v)"
proof (induction L)
  case Nil
  show ?case by (simp add: resolveConflicts_def)
next
  case (Cons a L)
  have fst_keep: "fst (resolveEntry m a) = fst a"
    by (simp add: resolveEntry_def Let_def)
  show ?case
  proof (cases "fst a = v")
    case True
    then have "a = (v, snd a)" by (cases a) simp
    then show ?thesis
      using fst_keep True
      by (metis (no_types, lifting) list.simps(9) map_of_Cons_code(2) option.simps(9)
          prod.collapse resolveConflicts_def)
  next
    case False
    then show ?thesis
      using Cons.IH fst_keep
      by (metis (no_types, lifting) list.simps(9) map_of_Cons_code(2) prod.collapse
          resolveConflicts_def)
  qed
qed

lemma resolveEntry_many:
  "1 < length (encodings info)
   \<Longrightarrow> snd (resolveEntry m (v, info)) =
       info\<lparr>encodings := [pickEncoding (isLoadOrStoreOp m v) (encodings info) (hd (encodings info))]\<rparr>"
  by (simp add: resolveEntry_def Let_def)

lemma resolveEntry_few:
  "length (encodings info) \<le> 1 \<Longrightarrow> resolveEntry m (v, info) = (v, info)"
  by (simp add: resolveEntry_def Let_def)

lemma hd_in_set_many: "1 < length xs \<Longrightarrow> hd xs \<in> set xs"
  by (cases xs) auto

text \<open>
  C4. For a value with more than one candidate, \<open>resolveConflicts\<close> leaves exactly
  one: if the value is the result of a load, store or atomic operation, the first
  blocked candidate in insertion order, and the first candidate when none is blocked;
  for every other value, the first MMA candidate in insertion order, and the first
  candidate when none is MMA.
\<close>

theorem resolveConflicts_selection:
  assumes "map_of L v = Some info" and "1 < length (encodings info)"
  shows "map_of (resolveConflicts m L) v =
           Some (info\<lparr>encodings :=
             [if (\<exists>p. getDefiningOp v = Some p
                       \<and> (opKind m p = LoadOp \<or> opKind m p = StoreOp
                            \<or> opKind m p = AtomicRMWOp \<or> opKind m p = AtomicCASOp))
              then (case find isaBlockedEncoding (encodings info) of
                      Some e \<Rightarrow> e | None \<Rightarrow> hd (encodings info))
              else (case find isaNvidiaMmaEncoding (encodings info) of
                      Some e \<Rightarrow> e | None \<Rightarrow> hd (encodings info))]\<rparr>)"
proof -
  have mem: "isLoadOrStoreOp m v =
      (\<exists>p. getDefiningOp v = Some p
            \<and> (opKind m p = LoadOp \<or> opKind m p = StoreOp
                 \<or> opKind m p = AtomicRMWOp \<or> opKind m p = AtomicCASOp))"
    by (cases v) (simp_all add: isLoadOrStoreOp_def)
  have "map_of (resolveConflicts m L) v = Some (snd (resolveEntry m (v, info)))"
    using assms(1) by (simp add: map_of_resolveConflicts)
  also have "snd (resolveEntry m (v, info)) =
      info\<lparr>encodings := [pickEncoding (isLoadOrStoreOp m v) (encodings info) (hd (encodings info))]\<rparr>"
    using assms(2) by (rule resolveEntry_many)
  finally show ?thesis
    unfolding mem [symmetric] by (cases "isLoadOrStoreOp m v") (simp_all add: pickEncoding_find)
qed

theorem resolveConflicts_selection_witness:
  "map_of conflictingLayouts (OpResult 1 0)
     = Some \<lparr>encodings = [NvidiaMmaEncoding 2 0, BlockedEncoding 0, BlockedEncoding 1]\<rparr>
   \<and> map_of (resolveConflicts loopProgram conflictingLayouts) (OpResult 1 0)
     = Some \<lparr>encodings = [BlockedEncoding 0]\<rparr>"
  using resolveConflicts_selection [of conflictingLayouts "OpResult 1 0"
      "\<lparr>encodings = [NvidiaMmaEncoding 2 0, BlockedEncoding 0, BlockedEncoding 1]\<rparr>" loopProgram]
  by (simp add: conflictingLayouts_def loopProgram_def loopProgramOp_def opKind_def)

text \<open>
  C10. The one layout \<open>resolveConflicts\<close> keeps for a value with more than one
  candidate is one of the candidates the value had before; and for every value,
  the candidates after resolution are among the candidates before it.
\<close>

theorem resolveConflicts_keeps_candidate:
  assumes "map_of L v = Some info" and "1 < length (encodings info)"
  shows "(\<exists>e \<in> set (encodings info).
            map_of (resolveConflicts m L) v = Some (info\<lparr>encodings := [e]\<rparr>))
         \<and> (\<forall>w. set (candidates (resolveConflicts m L) w) \<subseteq> set (candidates L w))"
proof
  have "map_of (resolveConflicts m L) v = Some (snd (resolveEntry m (v, info)))"
    using assms(1) by (simp add: map_of_resolveConflicts)
  moreover have "pickEncoding (isLoadOrStoreOp m v) (encodings info) (hd (encodings info))
      \<in> set (encodings info)"
    using assms(2) by (intro pickEncoding_member hd_in_set_many)
  ultimately show "\<exists>e \<in> set (encodings info).
      map_of (resolveConflicts m L) v = Some (info\<lparr>encodings := [e]\<rparr>)"
    using resolveEntry_many [OF assms(2), of m v] by auto
next
  show "\<forall>w. set (candidates (resolveConflicts m L) w) \<subseteq> set (candidates L w)"
  proof
    fix w
    show "set (candidates (resolveConflicts m L) w) \<subseteq> set (candidates L w)"
    proof (cases "map_of L w")
      case None
      then show ?thesis by (simp add: candidates_def map_of_resolveConflicts)
    next
      case (Some i)
      show ?thesis
      proof (cases "1 < length (encodings i)")
        case True
        have "pickEncoding (isLoadOrStoreOp m w) (encodings i) (hd (encodings i))
            \<in> set (encodings i)"
          using True by (intro pickEncoding_member hd_in_set_many)
        then show ?thesis
          using Some resolveEntry_many [OF True, of m w]
          by (simp add: candidates_def map_of_resolveConflicts)
      next
        case False
        then show ?thesis
          using Some resolveEntry_few [of i m w]
          by (simp add: candidates_def map_of_resolveConflicts)
      qed
    qed
  qed
qed

theorem resolveConflicts_keeps_candidate_witness:
  "1 < length [NvidiaMmaEncoding 2 0, BlockedEncoding 0, BlockedEncoding 1]
   \<and> (\<exists>e \<in> set [NvidiaMmaEncoding 2 0, BlockedEncoding 0, BlockedEncoding 1].
         map_of (resolveConflicts loopProgram conflictingLayouts) (OpResult 1 0)
           = Some \<lparr>encodings = [e]\<rparr>)"
  using resolveConflicts_keeps_candidate [of conflictingLayouts "OpResult 1 0"
      "\<lparr>encodings = [NvidiaMmaEncoding 2 0, BlockedEncoding 0, BlockedEncoding 1]\<rparr>" loopProgram]
  by (simp add: conflictingLayouts_def)

section \<open>Properties of forward propagation\<close>

lemma map_of_mapvector_subscript:
  "map_of (mapvector_subscript L k d) = (if map_of L k = None then (map_of L)(k \<mapsto> d) else map_of L)"
  by (auto simp: mapvector_subscript_def map_add_def fun_eq_iff split: option.splits)

lemma map_of_mapvector_assign:
  "map_of (mapvector_assign L k v) = (if map_of L k = None then map_of L else (map_of L)(k \<mapsto> v))"
  by (induction L) (auto simp: fun_eq_iff)

lemma mapvector_assign_same: "map_of L k = Some v \<Longrightarrow> mapvector_assign L k v = L"
  by (induction L) (auto split: if_splits)

lemma set_mapvector_assign: "set (mapvector_assign L k v) \<subseteq> insert (k, v) (set L)"
  by (induction L) (auto split: if_splits)

lemma candidates_insertCandidate:
  "candidates (fst (insertCandidate L v d)) w =
     (if w = v \<and> d \<notin> set (candidates L v) then candidates L v @ [d] else candidates L w)"
  by (auto simp: insertCandidate_def candidates_def mapvector_get_def setvector_insert_def Let_def
        map_of_mapvector_assign map_of_mapvector_subscript split: option.splits)

lemma snd_insertCandidate: "snd (insertCandidate L v d) = (d \<notin> set (candidates L v))"
  by (auto simp: insertCandidate_def candidates_def mapvector_get_def setvector_insert_def Let_def
        map_of_mapvector_subscript split: option.splits)

lemma insertCandidate_same: "d \<in> set (candidates L v) \<Longrightarrow> fst (insertCandidate L v d) = L"
  by (auto simp: insertCandidate_def candidates_def mapvector_get_def setvector_insert_def Let_def
        mapvector_subscript_def mapvector_assign_same split: option.splits)

lemma mapvector_assign_append_new:
  "map_of L k = None \<Longrightarrow> mapvector_assign (L @ [(k, a)]) k b = L @ [(k, b)]"
  by (induction L) (auto split: if_splits)

lemma insertCandidate_eq:
  "fst (insertCandidate L v d) =
     (case map_of L v of
        None \<Rightarrow> L @ [(v, \<lparr>encodings = [d]\<rparr>)]
      | Some info \<Rightarrow>
          if d \<in> set (encodings info) then L
          else mapvector_assign L v (info\<lparr>encodings := encodings info @ [d]\<rparr>))"
  by (auto simp: insertCandidate_def mapvector_get_def setvector_insert_def Let_def
        mapvector_subscript_def mapvector_assign_same mapvector_assign_append_new
        split: option.splits)

lemma set_insertCandidate:
  "x \<in> set (fst (insertCandidate L v d)) \<Longrightarrow> x \<in> set L \<or> (fst x = v \<and> d \<in> set (encodings (snd x)))"
  using set_mapvector_assign [of L v]
  by (fastforce simp: insertCandidate_eq split: option.splits if_splits)

lemma entriesNonEmpty_insertCandidate:
  "entriesNonEmpty L \<Longrightarrow> entriesNonEmpty (fst (insertCandidate L v d))"
  unfolding entriesNonEmpty_def using set_insertCandidate by fastforce

lemma dom_insertCandidate:
  "dom (map_of (fst (insertCandidate L v d))) = insert v (dom (map_of L))"
  by (auto simp: insertCandidate_eq map_of_mapvector_assign split: option.splits if_splits)

lemma evolves_refl: "evolves L L"
  by (simp add: evolves_def extends_def)

lemma evolves_trans: "evolves L L' \<Longrightarrow> evolves L' L'' \<Longrightarrow> evolves L L''"
  unfolding evolves_def extends_def by (meson subset_trans)

lemma grew_evolves: "grew v L L' \<Longrightarrow> evolves L' L'' \<Longrightarrow> grew v L L''"
  unfolding grew_def evolves_def extends_def by (meson psubset_subset_trans subsetD)

lemma evolves_grew: "evolves L L' \<Longrightarrow> grew v L' L'' \<Longrightarrow> grew v L L''"
  unfolding grew_def evolves_def extends_def by (meson subset_psubset_trans)

lemma advances_refl: "advances st st"
  by (simp add: advances_def evolves_refl)

lemma advances_trans:
  assumes "advances st st'" and "advances st' st''"
  shows "advances st st''"
proof -
  from assms(1) obtain n1 where n1: "snd st' = snd st @ n1" "n1 = [] \<longrightarrow> fst st' = fst st"
      "\<forall>v \<in> set n1. grew v (fst st) (fst st')" and e1: "evolves (fst st) (fst st')"
    unfolding advances_def by blast
  from assms(2) obtain n2 where n2: "snd st'' = snd st' @ n2" "n2 = [] \<longrightarrow> fst st'' = fst st'"
      "\<forall>v \<in> set n2. grew v (fst st') (fst st'')" and e2: "evolves (fst st') (fst st'')"
    unfolding advances_def by blast
  have "snd st'' = snd st @ (n1 @ n2)" using n1(1) n2(1) by simp
  moreover have "n1 @ n2 = [] \<longrightarrow> fst st'' = fst st" using n1(2) n2(2) by simp
  moreover have "\<forall>v \<in> set (n1 @ n2). grew v (fst st) (fst st'')"
  proof
    fix v assume "v \<in> set (n1 @ n2)"
    then consider "v \<in> set n1" | "v \<in> set n2" by auto
    then show "grew v (fst st) (fst st'')"
    proof cases
      case 1
      with n1(3) have "grew v (fst st) (fst st')" by blast
      then show ?thesis using e2 by (rule grew_evolves)
    next
      case 2
      with n2(3) have "grew v (fst st') (fst st'')" by blast
      with e1 show ?thesis by (rule evolves_grew)
    qed
  qed
  ultimately show ?thesis
    unfolding advances_def using evolves_trans [OF e1 e2] by blast
qed

lemma evolves_insertCandidate: "evolves L (fst (insertCandidate L v d))"
  unfolding evolves_def extends_def
  by (auto simp: candidates_insertCandidate dom_insertCandidate entriesNonEmpty_insertCandidate)

lemma grew_insertCandidate:
  "snd (insertCandidate L v d) \<Longrightarrow> grew v L (fst (insertCandidate L v d))"
  unfolding grew_def
  by (auto simp: snd_insertCandidate candidates_insertCandidate dom_insertCandidate)

lemma same_insertCandidate:
  "\<not> snd (insertCandidate L v d) \<Longrightarrow> fst (insertCandidate L v d) = L"
  by (simp add: snd_insertCandidate insertCandidate_same)

lemma setEncodingLoop_advances:
  "evolves (fst st) (fst (setEncodingLoop orc m p value es st))
   \<and> (snd st \<longrightarrow> snd (setEncodingLoop orc m p value es st))
   \<and> (snd (setEncodingLoop orc m p value es st)
        \<longrightarrow> snd st \<or> grew value (fst st) (fst (setEncodingLoop orc m p value es st)))
   \<and> (\<not> snd (setEncodingLoop orc m p value es st)
        \<longrightarrow> fst (setEncodingLoop orc m p value es st) = fst st)"
proof (induction es arbitrary: st)
  case Nil
  show ?case by (simp add: evolves_refl)
next
  case (Cons e es)
  show ?case
  proof (cases "dstEncodingOf orc m p e")
    case None
    then show ?thesis using Cons.IH [of st] by simp
  next
    case (Some d)
    define L1 where "L1 = fst (insertCandidate (fst st) value d)"
    define b1 where "b1 = snd (insertCandidate (fst st) value d)"
    define res where "res = setEncodingLoop orc m p value es (L1, snd st \<or> b1)"
    have eq: "setEncodingLoop orc m p value (e # es) st = res"
      using Some by (simp add: Let_def res_def L1_def b1_def)
    have ih: "evolves L1 (fst res)" "snd st \<or> b1 \<longrightarrow> snd res"
        "snd res \<longrightarrow> (snd st \<or> b1) \<or> grew value L1 (fst res)" "\<not> snd res \<longrightarrow> fst res = L1"
      using Cons.IH [of "(L1, snd st \<or> b1)"] unfolding res_def by simp_all
    have e1: "evolves (fst st) L1" unfolding L1_def by (rule evolves_insertCandidate)
    have g1: "b1 \<Longrightarrow> grew value (fst st) L1"
      unfolding L1_def b1_def by (rule grew_insertCandidate)
    have s1: "\<not> b1 \<Longrightarrow> L1 = fst st"
      unfolding L1_def b1_def by (rule same_insertCandidate)
    have c1: "evolves (fst st) (fst res)" using e1 ih(1) by (rule evolves_trans)
    have c2: "snd st \<longrightarrow> snd res" using ih(2) by simp
    have c3: "snd res \<longrightarrow> snd st \<or> grew value (fst st) (fst res)"
      using ih(1,3) g1 e1 grew_evolves evolves_grew by blast
    have c4: "\<not> snd res \<longrightarrow> fst res = fst st" using ih(2,4) s1 by auto
    show ?thesis unfolding eq using c1 c2 c3 c4 by simp
  qed
qed

lemma setEncoding_advances: "advances st (setEncoding orc m values info p st)"
proof (induction "values" arbitrary: st)
  case Nil
  show ?case by (simp add: advances_refl)
next
  case (Cons v vs)
  show ?case
  proof (cases "isaRankedTensorType (valType m v)")
    case False
    then show ?thesis using Cons.IH [of st] by simp
  next
    case True
    let ?r = "setEncodingLoop orc m p v (encodings info) (fst st, False)"
    let ?st1 = "(fst ?r, if snd ?r then snd st @ [v] else snd st)"
    have eq: "setEncoding orc m (v # vs) info p st = setEncoding orc m vs info p ?st1"
      using True by (simp add: Let_def)
    have "advances st ?st1"
      using setEncodingLoop_advances [of "(fst st, False)" orc m p v "encodings info"]
      unfolding advances_def by auto
    then show ?thesis
      unfolding eq using Cons.IH [of ?st1] advances_trans by blast
  qed
qed

lemma propagateUse_setEncoding:
  "propagateUse orc m info use st = Inr st'
   \<Longrightarrow> \<exists>vs. valuesToPropagate m use = Inr vs \<and> st' = setEncoding orc m vs info (fst use) st"
  unfolding propagateUse_def by (auto split: sum.splits)



lemma propagateUses_advances:
  "propagateUses orc m info uses st = Inr st' \<Longrightarrow> advances st st'"
proof (induction uses arbitrary: st)
  case Nil
  then show ?case by (simp add: advances_refl)
next
  case (Cons u us)
  from Cons.prems obtain st1 where s1: "propagateUse orc m info u st = Inr st1"
    and s2: "propagateUses orc m info us st1 = Inr st'"
    by (auto split: sum.splits)
  from propagateUse_setEncoding [OF s1] obtain vs where
    "st1 = setEncoding orc m vs info (fst u) st" by blast
  then have "advances st st1" by (simp only: setEncoding_advances)
  then show ?case using Cons.IH [OF s2] advances_trans by blast
qed






















lemma setEncodingLoop_covers:
  "e \<in> set es \<Longrightarrow> dstEncodingOf orc m p e = Some d
   \<Longrightarrow> d \<in> set (candidates (fst (setEncodingLoop orc m p value es st)) value)"
proof (induction es arbitrary: st)
  case Nil
  then show ?case by simp
next
  case (Cons a es)
  show ?case
  proof (cases "a = e")
    case True
    define st1 where "st1 = (fst (insertCandidate (fst st) value d), snd st \<or> snd (insertCandidate (fst st) value d))"
    have eq: "setEncodingLoop orc m p value (a # es) st = setEncodingLoop orc m p value es st1"
      using True Cons.prems(2) by (simp add: Let_def st1_def)
    have "d \<in> set (candidates (fst st1) value)"
      unfolding st1_def by (simp add: candidates_insertCandidate)
    moreover have "extends (fst st1) (fst (setEncodingLoop orc m p value es st1))"
      using setEncodingLoop_advances [of st1 orc m p "value" es] by (simp add: evolves_def)
    ultimately show ?thesis unfolding eq extends_def by blast
  next
    case False
    then have e: "e \<in> set es" using Cons.prems(1) by simp
    show ?thesis
    proof (cases "dstEncodingOf orc m p a")
      case None
      then show ?thesis using Cons.IH [OF e Cons.prems(2)] by simp
    next
      case (Some d')
      then show ?thesis using Cons.IH [OF e Cons.prems(2)] by (simp add: Let_def)
    qed
  qed
qed

lemma advances_extends: "advances st st' \<Longrightarrow> extends (fst st) (fst st')"
  by (simp add: advances_def evolves_def)

lemma setEncoding_covers:
  "w \<in> set values \<Longrightarrow> isaRankedTensorType (valType m w) \<Longrightarrow> e \<in> set (encodings info)
   \<Longrightarrow> dstEncodingOf orc m p e = Some d
   \<Longrightarrow> d \<in> set (candidates (fst (setEncoding orc m values info p st)) w)"
proof (induction "values" arbitrary: st)
  case Nil
  then show ?case by simp
next
  case (Cons v vs)
  show ?case
  proof (cases "v = w")
    case True
    define r where "r = setEncodingLoop orc m p w (encodings info) (fst st, False)"
    define st1 where "st1 = (fst r, if snd r then snd st @ [w] else snd st)"
    have eq: "setEncoding orc m (v # vs) info p st = setEncoding orc m vs info p st1"
      using True Cons.prems(2) by (simp add: Let_def st1_def r_def)
    have "d \<in> set (candidates (fst st1) w)"
      unfolding st1_def r_def using setEncodingLoop_covers [OF Cons.prems(3,4)] by simp
    moreover have "extends (fst st1) (fst (setEncoding orc m vs info p st1))"
      using setEncoding_advances by (rule advances_extends)
    ultimately show ?thesis unfolding eq extends_def by blast
  next
    case False
    then have w: "w \<in> set vs" using Cons.prems(1) by simp
    show ?thesis
      using Cons.IH [OF w Cons.prems(2,3,4)] by (simp add: Let_def)
  qed
qed

lemma propagateUses_covers:
  "propagateUses orc m info uses st = Inr st' \<Longrightarrow> use \<in> set uses
   \<Longrightarrow> valuesToPropagate m use = Inr vs \<Longrightarrow> w \<in> set vs
   \<Longrightarrow> isaRankedTensorType (valType m w) \<Longrightarrow> e \<in> set (encodings info)
   \<Longrightarrow> dstEncodingOf orc m (fst use) e = Some d
   \<Longrightarrow> d \<in> set (candidates (fst st') w)"
proof (induction uses arbitrary: st)
  case Nil
  then show ?case by simp
next
  case (Cons u us)
  from Cons.prems(1) obtain st1 where s1: "propagateUse orc m info u st = Inr st1"
    and s2: "propagateUses orc m info us st1 = Inr st'"
    by (auto split: sum.splits)
  show ?case
  proof (cases "u = use")
    case True
    have "st1 = setEncoding orc m vs info (fst use) st"
      using propagateUse_setEncoding [OF s1] True Cons.prems(3) by auto
    then have "d \<in> set (candidates (fst st1) w)"
      using setEncoding_covers [OF Cons.prems(4,5,6,7)] by simp
    moreover have "extends (fst st1) (fst st')"
      using propagateUses_advances [OF s2] by (rule advances_extends)
    ultimately show ?thesis unfolding extends_def by blast
  next
    case False
    then have "use \<in> set us" using Cons.prems(2) by simp
    then show ?thesis using Cons.IH [OF s2 _ Cons.prems(3,4,5,6,7)] by simp
  qed
qed

text \<open>
  C6. When a value is used as an init operand of a for-loop, \<open>propagateToUsers\<close>
  puts, for every candidate layout of \<open>info\<close>, the destination layout the inference
  gives for the loop into the set of the tied iteration argument of the body and into
  the set of the tied result of the loop: the same layout in both. (The argument and
  the result are tensors, as the init operand is.)
\<close>

theorem forOp_init_propagates_to_arg_and_result:
  assumes "(forOp, n) \<in> set (getUses m value)" and "opKind m forOp = ForOp"
    and "getTiedLoopRegionIterArg forOp n = Some arg"
    and "getTiedLoopResult forOp n = Some result"
    and "isaRankedTensorType (valType m arg)" and "isaRankedTensorType (valType m result)"
    and "propagateToUsers orc m L value info = Inr r"
    and "e \<in> set (encodings info)" and "inferDstEncoding orc m forOp e = Some d"
  shows "arg = BlockArgument forOp 0 (n - 2) \<and> result = OpResult forOp (n - 3)
         \<and> d \<in> set (candidates (fst r) arg) \<and> d \<in> set (candidates (fst r) result)"
proof -
  have n: "3 \<le> n" using assms(3) by (simp add: getTiedLoopRegionIterArg_def split: if_splits)
  have a: "arg = BlockArgument forOp 0 (n - 2)"
    using assms(3) n by (auto simp: getTiedLoopRegionIterArg_def)
  have b: "result = OpResult forOp (n - 3)"
    using assms(4) by (auto simp: getTiedLoopResult_def split: if_splits)
  have vs: "valuesToPropagate m (forOp, n) = Inr [arg, result]"
    using assms(2,3,4) by (simp add: valuesToPropagate_def)
  have dst: "dstEncodingOf orc m (fst (forOp, n)) e = Some d"
    using assms(2,9) by (simp add: dstEncodingOf_def)
  have run: "propagateUses orc m info (getUses m value) (L, []) = Inr r"
    using assms(7) by (simp add: propagateToUsers_def)
  have "d \<in> set (candidates (fst r) arg)"
    using propagateUses_covers [OF run assms(1) vs _ assms(5) assms(8) dst] by simp
  moreover have "d \<in> set (candidates (fst r) result)"
    using propagateUses_covers [OF run assms(1) vs _ assms(6) assms(8) dst] by simp
  ultimately show ?thesis using a b by simp
qed

lemma loopProgram_uses: "getUses loopProgram (OpResult 1 0) = [(2, 3)]"
  by code_simp

lemma loopProgram_propagateToUsers:
  "propagateToUsers exampleOracles loopProgram loopAnchors (OpResult 1 0)
     \<lparr>encodings = [BlockedEncoding 0]\<rparr>
   = Inr loopUsersPropagated"
  by code_simp

theorem forOp_init_propagates_to_arg_and_result_witness:
  "(2, 3) \<in> set (getUses loopProgram (OpResult 1 0)) \<and> opKind loopProgram 2 = ForOp
   \<and> BlockedEncoding 0 \<in> set (candidates (fst loopUsersPropagated) (BlockArgument 2 0 1))
   \<and> BlockedEncoding 0 \<in> set (candidates (fst loopUsersPropagated) (OpResult 2 0))"
proof -
  have u: "(2, 3) \<in> set (getUses loopProgram (OpResult 1 0))"
    unfolding loopProgram_uses by simp
  have k: "opKind loopProgram 2 = ForOp"
    by (simp add: opKind_def loopProgram_def loopProgramOp_def)
  have a: "getTiedLoopRegionIterArg 2 3 = Some (BlockArgument 2 0 1)"
    by (simp add: getTiedLoopRegionIterArg_def)
  have b: "getTiedLoopResult 2 3 = Some (OpResult 2 0)"
    by (simp add: getTiedLoopResult_def)
  have ta: "isaRankedTensorType (valType loopProgram (BlockArgument 2 0 1))"
    by (simp add: loopProgram_def loopProgramType_def tensorOf_def)
  have tr: "isaRankedTensorType (valType loopProgram (OpResult 2 0))"
    by (simp add: loopProgram_def loopProgramType_def tensorOf_def)
  have e: "BlockedEncoding 0 \<in> set (encodings \<lparr>encodings = [BlockedEncoding 0]\<rparr>)" by simp
  have d: "inferDstEncoding exampleOracles loopProgram 2 (BlockedEncoding 0)
      = Some (BlockedEncoding 0)"
    by (simp add: exampleOracles_def)
  from forOp_init_propagates_to_arg_and_result
    [OF u k a b ta tr loopProgram_propagateToUsers e d]
  show ?thesis using u k by simp
qed

section \<open>The single-layout invariant\<close>














section \<open>Anchor detection: which values are seeded\<close>
















section \<open>\<open>getValueAs\<close> and the conversions it inserts\<close>







lemma createOp_fields:
  "snd (createOp m ip opr tys) = nextOp m"
  "nextOp (fst (createOp m ip opr tys)) = nextOp m + 1"
  "ops (fst (createOp m ip opr tys)) = placeOp ip (nextOp m) (ops m)"
  "funcArguments (fst (createOp m ip opr tys)) = funcArguments m"
  "p \<noteq> nextOp m \<Longrightarrow> opTable (fst (createOp m ip opr tys)) p = opTable m p"
  "kind (opTable (fst (createOp m ip opr tys)) (nextOp m)) = kind opr"
  "operands (opTable (fst (createOp m ip opr tys)) (nextOp m)) = operands opr"
  "getDefiningOp v \<noteq> Some (nextOp m) \<Longrightarrow> valType (fst (createOp m ip opr tys)) v = valType m v"
  "i < length tys \<Longrightarrow> valType (fst (createOp m ip opr tys)) (OpResult (nextOp m) i) = tys ! i"
  by (auto simp: createOp_def Let_def split: val.splits)













section \<open>Rematerialization and the dot-accumulator pattern\<close>

lemma allCanBeRemat_member:
  "allCanBeRemat orc m vs \<Longrightarrow> v \<in> set vs \<Longrightarrow> getDefiningOp v = Some p \<Longrightarrow> canBeRemat orc m p"
  by (induction vs) (auto split: option.splits if_splits)

lemma canBeRemat_kinds:
  "canBeRemat orc m p
   \<Longrightarrow> \<not> ((opKind m p = LoadOp \<or> opKind m p = StoreOp) \<and> isExpensiveLoadOrStore orc m p)
       \<and> opKind m p \<noteq> ExtractSliceOp \<and> opKind m p \<noteq> AllocTensorOp
       \<and> opKind m p \<noteq> InsertSliceAsyncOp \<and> opKind m p \<noteq> DotOp
       \<and> opKind m p \<noteq> AtomicRMWOp \<and> opKind m p \<noteq> AtomicCASOp
       \<and> opKind m p \<noteq> IfOp \<and> opKind m p \<noteq> WhileOp \<and> opKind m p \<noteq> ConditionOp"
  unfolding canBeRemat_def by (auto split: if_splits)

lemma set_setvector_add: "set (setvector_add xs x) = insert x (set xs)"
  by (auto simp: setvector_add_def setvector_insert_def)

lemma collectOpsToRewrite_origin:
  "collectOpsToRewrite m vs acc = Inr ps \<Longrightarrow> p \<in> set ps
   \<Longrightarrow> p \<in> set acc
       \<or> (\<exists>v \<in> set vs. getDefiningOp v = Some p)
       \<or> (\<exists>q r i. BlockArgument q r i \<in> set vs \<and> (p = q \<or> getTerminator m q r = Some p))"
proof (induction m vs acc rule: collectOpsToRewrite.induct)
  case (1 m acc)
  then show ?case by simp
next
  case (2 m q i vs acc)
  from "2.IH" [of] "2.prems" have
    "p \<in> set (setvector_add acc q)
       \<or> (\<exists>v \<in> set vs. getDefiningOp v = Some p)
       \<or> (\<exists>q r i. BlockArgument q r i \<in> set vs \<and> (p = q \<or> getTerminator m q r = Some p))"
    by simp
  then show ?case by (auto simp: set_setvector_add)
next
  case (3 m q r i vs acc)
  from "3.prems"(1) obtain t where t: "getTerminator m q r = Some t"
    and rest: "collectOpsToRewrite m vs (setvector_add (setvector_add acc q) t) = Inr ps"
    by (auto split: option.splits)
  from "3.IH" [OF t rest "3.prems"(2)] have
    "p \<in> set (setvector_add (setvector_add acc q) t)
       \<or> (\<exists>v \<in> set vs. getDefiningOp v = Some p)
       \<or> (\<exists>q r i. BlockArgument q r i \<in> set vs \<and> (p = q \<or> getTerminator m q r = Some p))" .
  then show ?case using t by (auto simp: set_setvector_add)
qed

text \<open>
  C7. When \<open>getRematerializableSlice\<close> succeeds, the slice is not empty and every
  operation that defines a member of the slice passes \<open>canBeRemat\<close>: it is not a load
  or store the cost model calls expensive, not an extract-slice, alloc-tensor or
  insert-slice-async operation, not a matrix multiply, not an atomic operation, and
  not an if, a while or a condition. So every operation \<open>rewriteSlice\<close> collects for
  rewriting is such an operation, or else the parent operation or the terminator of
  the block of a block argument that is a member of the slice; and when the block
  arguments in the slice are iteration arguments of for-loops that end in a yield,
  no matrix multiply, atomic operation, if, while or condition is among the
  operations collected.
\<close>

theorem rematerializable_slice_members:
  assumes "getRematerializableSlice orc m root rootEncoding stop = (True, slice, layout)"
  shows "slice \<noteq> []
     \<and> (\<forall>v \<in> set slice. \<forall>p. getDefiningOp v = Some p \<longrightarrow>
           canBeRemat orc m p
           \<and> \<not> ((opKind m p = LoadOp \<or> opKind m p = StoreOp) \<and> isExpensiveLoadOrStore orc m p)
           \<and> opKind m p \<noteq> ExtractSliceOp \<and> opKind m p \<noteq> AllocTensorOp
           \<and> opKind m p \<noteq> InsertSliceAsyncOp \<and> opKind m p \<noteq> DotOp
           \<and> opKind m p \<noteq> AtomicRMWOp \<and> opKind m p \<noteq> AtomicCASOp
           \<and> opKind m p \<noteq> IfOp \<and> opKind m p \<noteq> WhileOp \<and> opKind m p \<noteq> ConditionOp)
     \<and> (\<forall>ps. collectOpsToRewrite m slice [] = Inr ps \<longrightarrow>
           (\<forall>p \<in> set ps.
              (\<exists>v \<in> set slice. getDefiningOp v = Some p \<and> canBeRemat orc m p)
              \<or> (\<exists>q r i. BlockArgument q r i \<in> set slice
                    \<and> (p = q \<or> getTerminator m q r = Some p))))
     \<and> ((\<forall>q r i. BlockArgument q r i \<in> set slice \<longrightarrow>
             opKind m q = ForOp \<and> (\<forall>t. getTerminator m q r = Some t \<longrightarrow> opKind m t = YieldOp))
          \<longrightarrow> (\<forall>ps. collectOpsToRewrite m slice [] = Inr ps \<longrightarrow>
                (\<forall>p \<in> set ps.
                   opKind m p \<noteq> DotOp \<and> opKind m p \<noteq> AtomicRMWOp
                   \<and> opKind m p \<noteq> AtomicCASOp \<and> opKind m p \<noteq> IfOp
                   \<and> opKind m p \<noteq> WhileOp \<and> opKind m p \<noteq> ConditionOp)))"
proof -
  from assms have ne: "slice \<noteq> []" and all: "allCanBeRemat orc m slice"
    unfolding getRematerializableSlice_def by (auto simp: Let_def split: if_splits)
  have members: "\<And>v p. v \<in> set slice \<Longrightarrow> getDefiningOp v = Some p \<Longrightarrow> canBeRemat orc m p"
    using all by (rule allCanBeRemat_member)
  have collected: "\<And>ps p. collectOpsToRewrite m slice [] = Inr ps \<Longrightarrow> p \<in> set ps \<Longrightarrow>
      (\<exists>v \<in> set slice. getDefiningOp v = Some p \<and> canBeRemat orc m p)
      \<or> (\<exists>q r i. BlockArgument q r i \<in> set slice \<and> (p = q \<or> getTerminator m q r = Some p))"
  proof -
    fix ps p assume a: "collectOpsToRewrite m slice [] = Inr ps" "p \<in> set ps"
    from collectOpsToRewrite_origin [OF a]
    show "(\<exists>v \<in> set slice. getDefiningOp v = Some p \<and> canBeRemat orc m p)
      \<or> (\<exists>q r i. BlockArgument q r i \<in> set slice \<and> (p = q \<or> getTerminator m q r = Some p))"
      using members by auto
  qed
  have loops: "(\<forall>q r i. BlockArgument q r i \<in> set slice \<longrightarrow>
             opKind m q = ForOp \<and> (\<forall>t. getTerminator m q r = Some t \<longrightarrow> opKind m t = YieldOp))
          \<longrightarrow> (\<forall>ps. collectOpsToRewrite m slice [] = Inr ps \<longrightarrow>
                (\<forall>p \<in> set ps.
                   opKind m p \<noteq> DotOp \<and> opKind m p \<noteq> AtomicRMWOp
                   \<and> opKind m p \<noteq> AtomicCASOp \<and> opKind m p \<noteq> IfOp
                   \<and> opKind m p \<noteq> WhileOp \<and> opKind m p \<noteq> ConditionOp))"
  proof (intro impI allI ballI)
    fix ps p
    assume blocks: "\<forall>q r i. BlockArgument q r i \<in> set slice \<longrightarrow>
             opKind m q = ForOp \<and> (\<forall>t. getTerminator m q r = Some t \<longrightarrow> opKind m t = YieldOp)"
      and c: "collectOpsToRewrite m slice [] = Inr ps" and p: "p \<in> set ps"
    from collected [OF c p] consider
      (defined) "canBeRemat orc m p"
      | (block) "opKind m p = ForOp \<or> opKind m p = YieldOp"
      using blocks by blast
    then show "opKind m p \<noteq> DotOp \<and> opKind m p \<noteq> AtomicRMWOp
                   \<and> opKind m p \<noteq> AtomicCASOp \<and> opKind m p \<noteq> IfOp
                   \<and> opKind m p \<noteq> WhileOp \<and> opKind m p \<noteq> ConditionOp"
    proof cases
      case defined
      then show ?thesis using canBeRemat_kinds by blast
    next
      case block
      then show ?thesis by auto
    qed
  qed
  show ?thesis using ne members canBeRemat_kinds collected loops by blast
qed

lemma rematProgram_slice:
  "getRematerializableSlice rematOracles rematProgram (OpResult 2 0) (BlockedEncoding 1) None
   = (True, [OpResult 2 0, OpResult 1 0],
      [OpResult 2 0 \<mapsto> BlockedEncoding 1, OpResult 1 0 \<mapsto> BlockedEncoding 1])"
  by (simp add: getRematerializableSlice_def rematOracles_def exampleOracles_def Let_def
      canBeRemat_def opKind_def rematProgram_def rematProgramOp_def)

theorem rematerializable_slice_members_witness:
  "getRematerializableSlice rematOracles rematProgram (OpResult 2 0) (BlockedEncoding 1) None
     = (True, [OpResult 2 0, OpResult 1 0],
        [OpResult 2 0 \<mapsto> BlockedEncoding 1, OpResult 1 0 \<mapsto> BlockedEncoding 1])
   \<and> canBeRemat rematOracles rematProgram 2 \<and> canBeRemat rematOracles rematProgram 1
   \<and> opKind rematProgram 2 \<noteq> DotOp"
  using rematerializable_slice_members [OF rematProgram_slice] rematProgram_slice
  by simp

lemma ops_eraseOp: "set (ops (eraseOp m p)) = set (ops m) - {p}"
  by (auto simp: eraseOp_def)










lemma opKind_replaceAllUsesWith: "opKind (replaceAllUsesWith m old new) p = opKind m p"
  by (simp add: replaceAllUsesWith_def opKind_def)

lemma opKind_eraseOp: "opKind (eraseOp m q) p = opKind m p"
  by (simp add: eraseOp_def opKind_def)

lemma opKind_createOp_new: "opKind (fst (createOp m ip opr tys)) (nextOp m) = kind opr"
  by (simp add: opKind_def createOp_fields(6))

lemma opKind_createOp_old:
  "p \<noteq> nextOp m \<Longrightarrow> opKind (fst (createOp m ip opr tys)) p = opKind m p"
  by (simp add: opKind_def createOp_fields(5))

lemma buildDotRewrite_kinds:
  "opKind (buildDotRewrite m op dotOp a b loaded dstTy elt) (nextOp m) = ConstantOp
   \<and> opKind (buildDotRewrite m op dotOp a b loaded dstTy elt) (nextOp m + 1) = SplatOp
   \<and> opKind (buildDotRewrite m op dotOp a b loaded dstTy elt) (nextOp m + 2) = DotOp
   \<and> opKind (buildDotRewrite m op dotOp a b loaded dstTy elt) (nextOp m + 3) = ConvertLayoutOp
   \<and> opKind (buildDotRewrite m op dotOp a b loaded dstTy elt) (nextOp m + 4) = AddFOp
   \<and> nextOp (buildDotRewrite m op dotOp a b loaded dstTy elt) = nextOp m + 5
   \<and> op \<notin> set (ops (buildDotRewrite m op dotOp a b loaded dstTy elt))"
proof -
  define c0 where "c0 = createOp m (InsertBefore op) (newOperation ConstantOp [] False [0]) [OtherType elt]"
  define c1 where "c1 = createOp (fst c0) (InsertBefore op)
                 (newOperation SplatOp [OpResult (snd c0) 0] False []) [valType m (OpResult dotOp 0)]"
  define c2 where "c2 = createOp (fst c1) (InsertBefore op)
                 (newOperation DotOp [a, b, OpResult (snd c1) 0] False (attrs (opTable m dotOp)))
                 [valType m (OpResult dotOp 0)]"
  define c3 where "c3 = createOp (fst c2) (InsertBefore op)
                 (newOperation ConvertLayoutOp [OpResult (snd c2) 0] False []) [dstTy]"
  define c4 where "c4 = createOp (fst c3) (InsertBefore op)
                 (newOperation AddFOp [OpResult (snd c3) 0, loaded] True []) [dstTy]"
  have b: "buildDotRewrite m op dotOp a b loaded dstTy elt
      = eraseOp (replaceAllUsesWith (fst c4) (OpResult op 0) (OpResult (snd c4) 0)) op"
    unfolding buildDotRewrite_def Let_def c0_def c1_def c2_def c3_def c4_def by simp
  have n0: "nextOp (fst c0) = nextOp m + 1" unfolding c0_def by (simp add: createOp_fields(2))
  have n1: "nextOp (fst c1) = nextOp m + 2" unfolding c1_def by (simp add: createOp_fields(2) n0)
  have n2: "nextOp (fst c2) = nextOp m + 3" unfolding c2_def by (simp add: createOp_fields(2) n1)
  have n3: "nextOp (fst c3) = nextOp m + 4" unfolding c3_def by (simp add: createOp_fields(2) n2)
  have n4: "nextOp (fst c4) = nextOp m + 5" unfolding c4_def by (simp add: createOp_fields(2) n3)
  have k0: "opKind (fst c0) (nextOp m) = ConstantOp"
    unfolding c0_def by (simp add: opKind_createOp_new newOperation_def)
  have k1: "opKind (fst c1) (nextOp m + 1) = SplatOp"
    unfolding c1_def using opKind_createOp_new [of "fst c0"] n0 by (simp add: newOperation_def)
  have k2: "opKind (fst c2) (nextOp m + 2) = DotOp"
    unfolding c2_def using opKind_createOp_new [of "fst c1"] n1 by (simp add: newOperation_def)
  have k3: "opKind (fst c3) (nextOp m + 3) = ConvertLayoutOp"
    unfolding c3_def using opKind_createOp_new [of "fst c2"] n2 by (simp add: newOperation_def)
  have k4: "opKind (fst c4) (nextOp m + 4) = AddFOp"
    unfolding c4_def using opKind_createOp_new [of "fst c3"] n3 by (simp add: newOperation_def)
  have keep1: "\<And>p. p \<noteq> nextOp m + 1 \<Longrightarrow> opKind (fst c1) p = opKind (fst c0) p"
    unfolding c1_def using opKind_createOp_old [of _ "fst c0"] n0 by simp
  have keep2: "\<And>p. p \<noteq> nextOp m + 2 \<Longrightarrow> opKind (fst c2) p = opKind (fst c1) p"
    unfolding c2_def using opKind_createOp_old [of _ "fst c1"] n1 by simp
  have keep3: "\<And>p. p \<noteq> nextOp m + 3 \<Longrightarrow> opKind (fst c3) p = opKind (fst c2) p"
    unfolding c3_def using opKind_createOp_old [of _ "fst c2"] n2 by simp
  have keep4: "\<And>p. p \<noteq> nextOp m + 4 \<Longrightarrow> opKind (fst c4) p = opKind (fst c3) p"
    unfolding c4_def using opKind_createOp_old [of _ "fst c3"] n3 by simp
  have f0: "opKind (fst c4) (nextOp m) = ConstantOp" using k0 keep1 keep2 keep3 keep4 by simp
  have f1: "opKind (fst c4) (nextOp m + 1) = SplatOp" using k1 keep2 keep3 keep4 by simp
  have f2: "opKind (fst c4) (nextOp m + 2) = DotOp" using k2 keep3 keep4 by simp
  have f3: "opKind (fst c4) (nextOp m + 3) = ConvertLayoutOp" using k3 keep4 by simp
  have nn: "nextOp (eraseOp (replaceAllUsesWith (fst c4) (OpResult op 0) (OpResult (snd c4) 0)) op)
      = nextOp m + 5"
    using n4 by (simp add: eraseOp_def replaceAllUsesWith_def)
  show ?thesis
    unfolding b
    using f0 f1 f2 f3 k4 nn
    by (simp add: opKind_eraseOp opKind_replaceAllUsesWith ops_eraseOp)
qed

lemma operands_createOp:
  "operands (opTable (fst (createOp m ip opr tys)) p)
     = (if p = nextOp m then operands opr else operands (opTable m p))"
  by (simp add: createOp_def Let_def)

lemma buildDotRewrite_operands:
  "operands (opTable (buildDotRewrite m op dotOp a b loaded dstTy elt) p)
     = map (\<lambda>v. if v = OpResult op 0 then OpResult (nextOp m + 4) 0 else v)
         (if p = nextOp m then []
          else if p = nextOp m + 1 then [OpResult (nextOp m) 0]
          else if p = nextOp m + 2 then [a, b, OpResult (nextOp m + 1) 0]
          else if p = nextOp m + 3 then [OpResult (nextOp m + 2) 0]
          else if p = nextOp m + 4 then [OpResult (nextOp m + 3) 0, loaded]
          else operands (opTable m p))"
  unfolding buildDotRewrite_def Let_def
  by (simp add: eraseOp_def replaceAllUsesWith_def operands_createOp createOp_fields(1,2)
      newOperation_def)

text \<open>
  C9 (as amended). The pattern succeeds exactly when the source of the conversion is a
  matrix multiply, the accumulator of the multiply is the result of a conversion
  whose source is a load, the conversion and the multiply are each used exactly
  once, and the type of the result of the conversion is the type of the loaded
  value. When it fails the program is unchanged. When it succeeds it has created, in
  this order, a zero constant, a splat of it, a matrix multiply of the two operands
  of the old one with the splat as accumulator, a conversion of the new product, and
  an addition of that conversion and the loaded value; every use of the result of the
  old conversion is a use of the addition, and the old conversion is erased.
\<close>

theorem matchAndRewrite_exactly_when:
  assumes "matchAndRewrite m op = Inr (ok, m')"
  shows "(ok \<longleftrightarrow> specifiedDotPattern m op
               \<and> (\<exists>loaded. loadedAccumulator m op = Some loaded
                     \<and> valType m (OpResult op 0) = valType m loaded))
     \<and> (\<not> ok \<longrightarrow> m' = m)
     \<and> (ok \<longrightarrow> op \<notin> set (ops m')
              \<and> nextOp m' = nextOp m + 5
              \<and> opKind m' (nextOp m) = ConstantOp
              \<and> opKind m' (nextOp m + 1) = SplatOp
              \<and> opKind m' (nextOp m + 2) = DotOp
              \<and> opKind m' (nextOp m + 3) = ConvertLayoutOp
              \<and> opKind m' (nextOp m + 4) = AddFOp
              \<and> (\<exists>src dotOp a b loaded.
                    getOperand m op 0 = Some src \<and> getDefiningOp src = Some dotOp
                    \<and> getOperand m dotOp 0 = Some a \<and> getOperand m dotOp 1 = Some b
                    \<and> loadedAccumulator m op = Some loaded
                    \<and> (\<forall>p. operands (opTable m' p)
                          = map (\<lambda>v. if v = OpResult op 0 then OpResult (nextOp m + 4) 0 else v)
                              (if p = nextOp m then []
                               else if p = nextOp m + 1 then [OpResult (nextOp m) 0]
                               else if p = nextOp m + 2 then [a, b, OpResult (nextOp m + 1) 0]
                               else if p = nextOp m + 3 then [OpResult (nextOp m + 2) 0]
                               else if p = nextOp m + 4 then [OpResult (nextOp m + 3) 0, loaded]
                               else operands (opTable m p)))))"
proof (cases ok)
  case False
  then show ?thesis
    using assms
    unfolding matchAndRewrite_def specifiedDotPattern_def loadedAccumulator_def
      getDefiningOpOfKind_def
    by (auto split: if_splits option.splits ty.splits)
next
  case True
  from assms True obtain src dotOp acc cvtOp loaded loadOp shape elt e a b where
    f: "getOperand m op 0 = Some src" "getDefiningOpOfKind m src DotOp = Some dotOp"
       "length (getUsers m op) = 1" "length (getUsers m dotOp) = 1"
       "getOperand m dotOp 2 = Some acc" "getDefiningOpOfKind m acc ConvertLayoutOp = Some cvtOp"
       "getOperand m cvtOp 0 = Some loaded" "getDefiningOpOfKind m loaded LoadOp = Some loadOp"
       "valType m (OpResult op 0) = RankedTensorType shape elt e"
       "RankedTensorType shape elt e = valType m loaded"
       "getOperand m dotOp 0 = Some a" "getOperand m dotOp 1 = Some b"
    and m': "m' = buildDotRewrite m op dotOp a b loaded (RankedTensorType shape elt e) elt"
    unfolding matchAndRewrite_def
    by (auto split: if_splits option.splits ty.splits)
  have src: "getDefiningOp src = Some dotOp" "getDefiningOp acc = Some cvtOp"
    using f(2,6) unfolding getDefiningOpOfKind_def by (auto split: option.splits if_splits)
  have la: "loadedAccumulator m op = Some loaded"
    unfolding loadedAccumulator_def using f(1,5,7) src by simp
  have cl: "specifiedDotPattern m op"
    unfolding specifiedDotPattern_def using f by blast
  have iff: "ok \<longleftrightarrow> specifiedDotPattern m op
               \<and> (\<exists>loaded. loadedAccumulator m op = Some loaded
                     \<and> valType m (OpResult op 0) = valType m loaded)"
    using True cl la f(9,10) by simp
  have struct: "\<forall>p. operands (opTable m' p)
                          = map (\<lambda>v. if v = OpResult op 0 then OpResult (nextOp m + 4) 0 else v)
                              (if p = nextOp m then []
                               else if p = nextOp m + 1 then [OpResult (nextOp m) 0]
                               else if p = nextOp m + 2 then [a, b, OpResult (nextOp m + 1) 0]
                               else if p = nextOp m + 3 then [OpResult (nextOp m + 2) 0]
                               else if p = nextOp m + 4 then [OpResult (nextOp m + 3) 0, loaded]
                               else operands (opTable m p))"
    unfolding m' using buildDotRewrite_operands by blast
  have ex: "\<exists>src dotOp a b loaded.
                    getOperand m op 0 = Some src \<and> getDefiningOp src = Some dotOp
                    \<and> getOperand m dotOp 0 = Some a \<and> getOperand m dotOp 1 = Some b
                    \<and> loadedAccumulator m op = Some loaded
                    \<and> (\<forall>p. operands (opTable m' p)
                          = map (\<lambda>v. if v = OpResult op 0 then OpResult (nextOp m + 4) 0 else v)
                              (if p = nextOp m then []
                               else if p = nextOp m + 1 then [OpResult (nextOp m) 0]
                               else if p = nextOp m + 2 then [a, b, OpResult (nextOp m + 1) 0]
                               else if p = nextOp m + 3 then [OpResult (nextOp m + 2) 0]
                               else if p = nextOp m + 4 then [OpResult (nextOp m + 3) 0, loaded]
                               else operands (opTable m p)))"
    using f(1) src(1) f(11,12) la struct by blast
  have kinds: "op \<notin> set (ops m') \<and> nextOp m' = nextOp m + 5
              \<and> opKind m' (nextOp m) = ConstantOp
              \<and> opKind m' (nextOp m + 1) = SplatOp
              \<and> opKind m' (nextOp m + 2) = DotOp
              \<and> opKind m' (nextOp m + 3) = ConvertLayoutOp
              \<and> opKind m' (nextOp m + 4) = AddFOp"
    unfolding m'
    using buildDotRewrite_kinds [of m op dotOp a b loaded "RankedTensorType shape elt e" elt]
    by simp
  show ?thesis using True iff ex kinds by simp
qed

lemma dotAccProgram_users:
  "length (getUsers (dotAccProgram (BlockedEncoding 0)) 4) = 1"
  "length (getUsers (dotAccProgram (BlockedEncoding 0)) 3) = 1"
  "length (getUsers (dotAccProgram (BlockedEncoding 1)) 4) = 1"
  "length (getUsers (dotAccProgram (BlockedEncoding 1)) 3) = 1"
  by code_simp+

lemma dotAccProgram_operands:
  "getOperand (dotAccProgram e) 4 0 = Some (OpResult 3 0)"
  "getOperand (dotAccProgram e) 3 0 = Some (BlockArgument 0 0 0)"
  "getOperand (dotAccProgram e) 3 1 = Some (BlockArgument 0 0 1)"
  "getOperand (dotAccProgram e) 3 2 = Some (OpResult 2 0)"
  "getOperand (dotAccProgram e) 2 0 = Some (OpResult 1 0)"
  by (simp_all add: getOperand_def dotAccProgram_def dotAccProgramOp_def)

lemma dotAccProgram_kinds:
  "getDefiningOpOfKind (dotAccProgram e) (OpResult 3 0) DotOp = Some 3"
  "getDefiningOpOfKind (dotAccProgram e) (OpResult 2 0) ConvertLayoutOp = Some 2"
  "getDefiningOpOfKind (dotAccProgram e) (OpResult 1 0) LoadOp = Some 1"
  "opKind (dotAccProgram e) 4 = ConvertLayoutOp"
  by (simp_all add: getDefiningOpOfKind_def opKind_def dotAccProgram_def dotAccProgramOp_def)

lemma dotAccProgram_types:
  "valType (dotAccProgram e) (OpResult 4 0) = RankedTensorType [16] 0 e"
  "valType (dotAccProgram e) (OpResult 1 0) = RankedTensorType [16] 0 (BlockedEncoding 0)"
  by (simp_all add: dotAccProgram_def dotAccProgramType_def tensorOf_def)

lemma dotAccProgram_rewrites:
  "matchAndRewrite (dotAccProgram (BlockedEncoding 0)) 4 = Inr (True, dotAccRewritten)"
  unfolding matchAndRewrite_def dotAccRewritten_def
  by (simp add: dotAccProgram_users dotAccProgram_operands dotAccProgram_kinds dotAccProgram_types
      del: One_nat_def)

lemma dotAccProgram_fails:
  "matchAndRewrite (dotAccProgram (BlockedEncoding 1)) 4
     = Inr (False, dotAccProgram (BlockedEncoding 1))"
  unfolding matchAndRewrite_def
  by (simp add: dotAccProgram_users dotAccProgram_operands dotAccProgram_kinds dotAccProgram_types
      del: One_nat_def)

lemma dotAccProgram_claimed:
  "specifiedDotPattern (dotAccProgram (BlockedEncoding 1)) 4"
  "specifiedDotPattern (dotAccProgram (BlockedEncoding 0)) 4"
  unfolding specifiedDotPattern_def
  by (simp_all add: dotAccProgram_users dotAccProgram_operands dotAccProgram_kinds
      del: One_nat_def)

lemma dotAccRewritten_shape:
  "ops dotAccRewritten = [0, 1, 2, 3, 6, 7, 8, 9, 10, 5]"
  "map (\<lambda>p. operands (opTable dotAccRewritten p)) [6, 7, 8, 9, 10, 5]
     = [[], [OpResult 6 0], [BlockArgument 0 0 0, BlockArgument 0 0 1, OpResult 7 0],
        [OpResult 8 0], [OpResult 9 0, OpResult 1 0], [BlockArgument 0 0 2, OpResult 10 0]]"
  by code_simp+

theorem matchAndRewrite_exactly_when_witness:
  "matchAndRewrite (dotAccProgram (BlockedEncoding 0)) 4 = Inr (True, dotAccRewritten)
   \<and> specifiedDotPattern (dotAccProgram (BlockedEncoding 0)) 4
   \<and> 4 \<notin> set (ops dotAccRewritten)
   \<and> opKind dotAccRewritten 8 = DotOp \<and> opKind dotAccRewritten 10 = AddFOp
   \<and> ops dotAccRewritten = [0, 1, 2, 3, 6, 7, 8, 9, 10, 5]"
proof -
  have n: "nextOp (dotAccProgram (BlockedEncoding 0)) = 6" by (simp add: dotAccProgram_def)
  from matchAndRewrite_exactly_when [OF dotAccProgram_rewrites]
  show ?thesis
    unfolding n using dotAccProgram_rewrites dotAccRewritten_shape(1) by simp
qed

text \<open>
  Without the condition on the types the statement fails on the example in which the
  product is converted into a blocked layout other than that of the load: the other
  conditions hold, and the pattern fails and leaves the program as it was.
\<close>

theorem dot_pattern_type_guard_counterexample:
  "specifiedDotPattern (dotAccProgram (BlockedEncoding 1)) 4
   \<and> matchAndRewrite (dotAccProgram (BlockedEncoding 1)) 4
       = Inr (False, dotAccProgram (BlockedEncoding 1))"
  using dotAccProgram_claimed(1) dotAccProgram_fails by simp

end
